theory Spec2Isabelle
  imports Complex_Main
begin

section \<open>Numbers, vectors and shared data\<close>

text \<open>
  The game is written in TypeScript. A JavaScript \<open>number\<close> is an IEEE 754 double
  and is modelled as the real number it stands for; NaN, the infinities and the sign of
  zero are not modelled. In the charge interpolation and in the movement vector, where
  the rounding of an operation shows in the result, every operation is rounded to the
  nearest double; elsewhere arithmetic is exact. The clock \<open>performance.now()\<close> is an
  explicit argument (milliseconds). Positions and directions of the 3D engine are
  triples of numbers.
\<close>

subsection \<open>Rounding to the nearest double\<close>

text \<open>
  \<open>double x\<close> is the double nearest to \<open>x\<close>, ties to the even significand: \<open>x\<close> is
  rounded to a multiple of its unit in the last place, which is \<open>2\<close> to the power of
  the exponent of \<open>x\<close> (at least \<open>-1022\<close>, where the subnormal numbers begin) minus 52.
  Overflow is not modelled. The operators \<open>+\<close>, \<open>-\<close>, \<open>*\<close> and \<open>/\<close> return the exact
  result rounded, and so does \<open>Math.sqrt\<close> in the engines, which compute it with the
  square root of the processor; \<open>Math.ceil\<close> is exact.
\<close>

definition roundHalfEven :: "real \<Rightarrow> int" where
  "roundHalfEven x =
     (let n = \<lfloor>x\<rfloor>; r = x - of_int n in
      if r < 1 / 2 then n else if r > 1 / 2 then n + 1 else if even n then n else n + 1)"

definition ulp :: "real \<Rightarrow> real" where
  "ulp x = 2 powr (of_int (max \<lfloor>log 2 \<bar>x\<bar>\<rfloor> (- 1022)) - 52)"

definition double :: "real \<Rightarrow> real" where
  "double x = (if x = 0 then 0 else of_int (roundHalfEven (x / ulp x)) * ulp x)"

definition dadd :: "real \<Rightarrow> real \<Rightarrow> real" where "dadd a b = double (a + b)"
definition dsub :: "real \<Rightarrow> real \<Rightarrow> real" where "dsub a b = double (a - b)"
definition dmul :: "real \<Rightarrow> real \<Rightarrow> real" where "dmul a b = double (a * b)"
definition ddiv :: "real \<Rightarrow> real \<Rightarrow> real" where "ddiv a b = double (a / b)"
definition Math_sqrt :: "real \<Rightarrow> real" where "Math_sqrt a = double (sqrt a)"
definition Math_ceil :: "real \<Rightarrow> real" where "Math_ceil a = of_int \<lceil>a\<rceil>"

subsection \<open>Vectors and shared data\<close>

type_synonym vec3 = "real \<times> real \<times> real"

definition vx :: "vec3 \<Rightarrow> real" where "vx v = fst v"
definition vy :: "vec3 \<Rightarrow> real" where "vy v = fst (snd v)"
definition vz :: "vec3 \<Rightarrow> real" where "vz v = snd (snd v)"

definition vscale :: "vec3 \<Rightarrow> real \<Rightarrow> vec3" where
  "vscale v k = (vx v * k, vy v * k, vz v * k)"

definition vadd :: "vec3 \<Rightarrow> vec3 \<Rightarrow> vec3" where
  "vadd a b = (vx a + vx b, vy a + vy b, vz a + vz b)"

definition vsubtract :: "vec3 \<Rightarrow> vec3 \<Rightarrow> vec3" where
  "vsubtract a b = (vx a - vx b, vy a - vy b, vz a - vz b)"

definition vlength :: "vec3 \<Rightarrow> real" where
  "vlength v = sqrt (vx v * vx v + vy v * vy v + vz v * vz v)"

text \<open>\<open>Vector3.normalize\<close> of the engine leaves a vector of length 0 as it is.\<close>

definition vnormalize :: "vec3 \<Rightarrow> vec3" where
  "vnormalize v = (let len = vlength v in
     if len = 0 \<or> len = 1 then v else vscale v (1 / len))"

definition Distance :: "vec3 \<Rightarrow> vec3 \<Rightarrow> real" where
  "Distance a b = vlength (vsubtract a b)"

text \<open>The enum \<open>MovementState\<close>; the enum of \<open>main.ts\<close> has no \<open>LANDING\<close>.\<close>

datatype MovementState = IDLE | WALKING | RUNNING | JUMPING | FALLING | LANDING

text \<open>The interfaces \<open>SpellData\<close> and \<open>Projectile\<close>, the same in both magic controllers.\<close>

record SpellData =
  name :: string
  manaCost :: real
  projectileSpeed :: real
  projectileSize :: real
  damage :: real
  color :: vec3
  castTime :: real

text \<open>
  Of a mesh only what the controllers read is kept: its position, its scaling and the
  diameter it was built with. Materials, rotation and particle effects are visual.
\<close>

record Mesh =
  position :: vec3
  scaling :: vec3
  diameter :: real

record Projectile =
  mesh :: Mesh
  direction :: vec3
  speed :: real
  projectileDamage :: real
  lifetime :: real
  maxLifetime :: real

text \<open>Calls made to the user interface are kept as a log, in the order they are made.\<close>

datatype UICall = ShowCastingBar | HideCastingBar | UpdateCastingProgress real

datatype error = TypeError

section \<open>\<open>PlayerController\<close> of \<open>main.ts\<close>: the mana pool\<close>

record PlayerController =
  currentMana :: real
  maxMana :: real
  manaRegenRate :: real
  currentState :: MovementState

definition regenerateMana :: "real \<Rightarrow> PlayerController \<Rightarrow> PlayerController" where
  "regenerateMana deltaTime pc =
     (if currentMana pc < maxMana pc then
        (let regenRate = (if currentState pc = RUNNING
                          then manaRegenRate pc * 0.7 else manaRegenRate pc)
         in pc\<lparr>currentMana := min (maxMana pc) (currentMana pc + regenRate * deltaTime)\<rparr>)
      else pc)"

text \<open>\<open>spendMana\<close> returns the flag together with the updated controller.\<close>

definition spendMana :: "real \<Rightarrow> PlayerController \<Rightarrow> bool \<times> PlayerController" where
  "spendMana amount pc =
     (if currentMana pc \<ge> amount
      then (True, pc\<lparr>currentMana := currentMana pc - amount\<rparr>)
      else (False, pc))"

section \<open>\<open>MagicController\<close> of \<open>main.ts\<close>\<close>

text \<open>
  The two tiers. The projectile sizes enter the interpolation, so the literals
  \<open>0.3\<close> and \<open>0.6\<close> are the doubles they denote.
\<close>

definition waterBallQuick :: SpellData where
  "waterBallQuick = \<lparr>name = ''Water Ball (Rapida)'', manaCost = 5, projectileSpeed = 25,
     projectileSize = double 0.3, damage = 15, color = (0.2, 0.6, 1.0), castTime = 0\<rparr>"

definition waterBallCharged :: SpellData where
  "waterBallCharged = \<lparr>name = ''Water Ball (Carregada)'', manaCost = 20, projectileSpeed = 15,
     projectileSize = double 0.6, damage = 50, color = (0.1, 0.4, 0.9), castTime = 2.0\<rparr>"

text \<open>
  A target is a mesh or a transform node; \<open>None\<close> stands for a target from which no
  position can be read. The staff tip and the aiming direction come from the camera and
  the scene graph and are arguments of the cast.
\<close>

record MagicController =
  playerController :: PlayerController
  targetMeshes :: "vec3 option list"
  isCasting :: bool
  castStartTime :: real
  currentSpell :: "SpellData option"
  activeProjectiles :: "Projectile list"
  spellsCast :: nat
  uiCalls :: "UICall list"

definition startCasting :: "real \<Rightarrow> MagicController \<Rightarrow> MagicController" where
  "startCasting now mc =
     (if isCasting mc then mc
      else mc\<lparr>isCasting := True, castStartTime := now,
              currentSpell := Some waterBallCharged,
              uiCalls := uiCalls mc @ [ShowCastingBar]\<rparr>)"

definition createProjectile :: "vec3 \<Rightarrow> vec3 \<Rightarrow> SpellData \<Rightarrow> MagicController \<Rightarrow> MagicController" where
  "createProjectile staffTipPosition staffDir spell mc =
     (let staffDirection = vnormalize staffDir;
          spawnOffset = vscale staffDirection 0.3;
          spawnPosition = vadd staffTipPosition spawnOffset;
          projectile = \<lparr>mesh = \<lparr>position = spawnPosition, scaling = (1, 1, 1),
                                 diameter = projectileSize spell * 2\<rparr>,
                        direction = staffDirection,
                        speed = projectileSpeed spell,
                        projectileDamage = damage spell,
                        lifetime = 0,
                        maxLifetime = 8\<rparr>
      in mc\<lparr>activeProjectiles := activeProjectiles mc @ [projectile]\<rparr>)"

definition castSpell :: "vec3 \<Rightarrow> vec3 \<Rightarrow> SpellData \<Rightarrow> MagicController \<Rightarrow> MagicController" where
  "castSpell staffTipPosition staffDir spell mc =
     (case spendMana (manaCost spell) (playerController mc) of
        (False, _) \<Rightarrow> mc
      | (True, pc) \<Rightarrow>
          (let mc1 = createProjectile staffTipPosition staffDir spell (mc\<lparr>playerController := pc\<rparr>)
           in mc1\<lparr>spellsCast := spellsCast mc1 + 1\<rparr>))"

text \<open>
  The spell chosen at release, from the time the button was held (seconds). Reading
  \<open>castTime\<close> of a null \<open>currentSpell\<close> throws; the quick branch does not read it.
  The interpolation is computed in doubles, operation by operation, as it is written.
  The literal \<open>0.2\<close> denotes the double just above 0.2; no double lies between the
  two, so for a held time that is a double the test against 0.2 is the test of the
  code (lemma \<open>quick_threshold_literal\<close> below).
\<close>

definition spellTocast :: "real \<Rightarrow> SpellData option \<Rightarrow> error + SpellData" where
  "spellTocast castTime' cur =
     (if castTime' < 0.2 then Inr waterBallQuick
      else (case cur of
              None \<Rightarrow> Inl TypeError
            | Some cs \<Rightarrow>
                if castTime' \<ge> castTime cs then Inr waterBallCharged
                else (let powerRatio = ddiv castTime' (castTime cs) in
                  Inr (waterBallCharged\<lparr>
                    manaCost := Math_ceil (dadd (manaCost waterBallQuick)
                      (dmul (dsub (manaCost waterBallCharged) (manaCost waterBallQuick))
                         powerRatio)),
                    projectileSize := dadd (projectileSize waterBallQuick)
                      (dmul (dsub (projectileSize waterBallCharged) (projectileSize waterBallQuick))
                         powerRatio),
                    damage := Math_ceil (dadd (damage waterBallQuick)
                      (dmul (dsub (damage waterBallCharged) (damage waterBallQuick))
                         powerRatio))\<rparr>))))"

definition finishCasting :: "real \<Rightarrow> vec3 \<Rightarrow> vec3 \<Rightarrow> MagicController \<Rightarrow> error + MagicController" where
  "finishCasting now staffTipPosition staffDir mc =
     (if \<not> isCasting mc then Inr mc
      else (let castTime' = ddiv (dsub now (castStartTime mc)) 1000 in
        case spellTocast castTime' (currentSpell mc) of
          Inl e \<Rightarrow> Inl e
        | Inr spell \<Rightarrow>
            (let mc1 = castSpell staffTipPosition staffDir spell mc
             in Inr (mc1\<lparr>isCasting := False, currentSpell := None,
                         uiCalls := uiCalls mc1 @ [HideCastingBar]\<rparr>))))"

text \<open>
  One pass of the loop body of \<open>update\<close> over a projectile: it is moved, its lifetime
  grows, and it is removed (\<open>None\<close>) on a collision or once its lifetime is above
  \<open>maxLifetime\<close>. The effect of a hit on the target (a flash, \<open>takeDamage\<close>) lies
  outside the list of projectiles.
\<close>

definition moveProjectile :: "real \<Rightarrow> Projectile \<Rightarrow> Projectile" where
  "moveProjectile deltaTime projectile =
     (let movement = vscale (direction projectile) (speed projectile * deltaTime)
      in projectile\<lparr>mesh := (mesh projectile)\<lparr>position := vadd (position (mesh projectile)) movement\<rparr>,
                     lifetime := lifetime projectile + deltaTime\<rparr>)"

fun hitsTarget :: "Projectile \<Rightarrow> vec3 option list \<Rightarrow> bool" where
  "hitsTarget projectile [] = False"
| "hitsTarget projectile (None # targets) = hitsTarget projectile targets"
| "hitsTarget projectile (Some targetPos # targets) =
     (let distance = Distance (position (mesh projectile)) targetPos;
          collisionRadius = vx (scaling (mesh projectile)) * 0.5 + 1.0
      in if distance \<le> collisionRadius then True else hitsTarget projectile targets)"

definition checkProjectileCollisions :: "vec3 option list \<Rightarrow> Projectile \<Rightarrow> bool" where
  "checkProjectileCollisions targets projectile =
     (if hitsTarget projectile targets then True
      else if vy (position (mesh projectile)) \<le> 0 then True
      else False)"

definition projectileTick :: "real \<Rightarrow> vec3 option list \<Rightarrow> Projectile \<Rightarrow> Projectile option" where
  "projectileTick deltaTime targets p =
     (let projectile = moveProjectile deltaTime p in
      if checkProjectileCollisions targets projectile then None
      else if lifetime projectile > maxLifetime projectile then None
      else Some projectile)"

text \<open>\<open>removeProjectile\<close> is \<open>splice(index, 1)\<close>.\<close>

definition removeProjectile :: "nat \<Rightarrow> Projectile list \<Rightarrow> Projectile list" where
  "removeProjectile index ps = take index ps @ drop (Suc index) ps"

text \<open>
  The loop \<open>for (i = length - 1; i >= 0; i--)\<close>: the counter \<open>Suc i\<close> stands for the
  pass at index \<open>i\<close>.
\<close>

fun updateLoop :: "real \<Rightarrow> vec3 option list \<Rightarrow> nat \<Rightarrow> Projectile list \<Rightarrow> Projectile list" where
  "updateLoop deltaTime targets 0 ps = ps"
| "updateLoop deltaTime targets (Suc i) ps =
     (case projectileTick deltaTime targets (ps ! i) of
        None \<Rightarrow> updateLoop deltaTime targets i (removeProjectile i ps)
      | Some projectile \<Rightarrow> updateLoop deltaTime targets i (ps[i := projectile]))"

definition update :: "real \<Rightarrow> real \<Rightarrow> MagicController \<Rightarrow> MagicController" where
  "update now deltaTime mc =
     (let mc1 = (case currentSpell mc of
                   None \<Rightarrow> mc
                 | Some cs \<Rightarrow>
                     if isCasting mc then
                       (let castTime' = (now - castStartTime mc) / 1000;
                            progress = min (castTime' / castTime cs) 1.0
                        in mc\<lparr>uiCalls := uiCalls mc @ [UpdateCastingProgress progress]\<rparr>)
                     else mc)
      in mc1\<lparr>activeProjectiles :=
               updateLoop deltaTime (targetMeshes mc1) (length (activeProjectiles mc1))
                 (activeProjectiles mc1)\<rparr>)"

text \<open>
  The fate of one projectile over the ticks \<open>dts\<close>: the index of the tick that removes
  it, if any. \<open>flown\<close> is the projectile after the ticks, moved and aged only.
\<close>

fun removedAt :: "vec3 option list \<Rightarrow> real list \<Rightarrow> Projectile \<Rightarrow> nat option" where
  "removedAt targets [] p = None"
| "removedAt targets (dt # dts) p =
     (case projectileTick dt targets p of
        None \<Rightarrow> Some 0
      | Some q \<Rightarrow> map_option Suc (removedAt targets dts q))"

fun flown :: "real list \<Rightarrow> Projectile \<Rightarrow> Projectile" where
  "flown [] p = p"
| "flown (dt # dts) p = flown dts (moveProjectile dt p)"

section \<open>\<open>PlayerStats\<close>, \<open>Player\<close> and \<open>SimpleMagicController\<close>\<close>

record RegenConfig =
  manaRegenRate :: real
  staminaRegenRate :: real
  healthRegenRate :: real
  restingMultiplier :: real
  movingMultiplier :: real
  runningMultiplier :: real
  healthRegenDelay :: real
  combatStaminaDelay :: real

definition defaultRegenConfig :: RegenConfig where
  "defaultRegenConfig = \<lparr>manaRegenRate = 10, staminaRegenRate = 15, healthRegenRate = 5,
     restingMultiplier = 1.5, movingMultiplier = 1.0, runningMultiplier = 0.7,
     healthRegenDelay = 5000, combatStaminaDelay = 2000\<rparr>"

text \<open>
  Of \<open>PlayerStats\<close> the mana pool, the counter of spells and the regeneration settings
  are kept; \<open>manaChanges\<close> logs the notifications \<open>onManaChange(current, max, delta)\<close>.
\<close>

record PlayerStats =
  mana :: real
  maxMana :: real
  spellsCast :: nat
  regenConfig :: RegenConfig
  manaChanges :: "(real \<times> real \<times> real) list"

text \<open>The rate after the \<open>switch\<close> on the movement state; \<open>LANDING\<close> has no case.\<close>

definition manaRate :: "RegenConfig \<Rightarrow> MovementState \<Rightarrow> real" where
  "manaRate cfg movementState =
     (let regenRate = RegenConfig.manaRegenRate cfg in
      case movementState of
        IDLE \<Rightarrow> regenRate * restingMultiplier cfg
      | WALKING \<Rightarrow> regenRate * movingMultiplier cfg
      | RUNNING \<Rightarrow> regenRate * runningMultiplier cfg
      | JUMPING \<Rightarrow> regenRate * 0.5
      | FALLING \<Rightarrow> regenRate * 0.5
      | LANDING \<Rightarrow> regenRate)"

definition updateManaRegen :: "real \<Rightarrow> MovementState \<Rightarrow> PlayerStats \<Rightarrow> PlayerStats" where
  "updateManaRegen deltaTime movementState st =
     (if mana st \<ge> PlayerStats.maxMana st then st
      else (let regenRate = manaRate (regenConfig st) movementState;
                oldMana = mana st;
                newMana = min (PlayerStats.maxMana st) (mana st + regenRate * deltaTime);
                st1 = st\<lparr>mana := newMana\<rparr>
            in if newMana \<noteq> oldMana
               then st1\<lparr>manaChanges := manaChanges st1 @
                      [(newMana, PlayerStats.maxMana st1, newMana - oldMana)]\<rparr>
               else st1))"

definition PlayerStats_spendMana :: "real \<Rightarrow> PlayerStats \<Rightarrow> bool \<times> PlayerStats" where
  "PlayerStats_spendMana amount st =
     (if mana st < amount then (False, st)
      else (let st1 = st\<lparr>mana := mana st - amount\<rparr>
            in (True, st1\<lparr>manaChanges := manaChanges st1 @
                          [(mana st1, PlayerStats.maxMana st1, - amount)]\<rparr>)))"

definition recordSpellCast :: "PlayerStats \<Rightarrow> PlayerStats" where
  "recordSpellCast st = st\<lparr>PlayerStats.spellsCast := PlayerStats.spellsCast st + 1\<rparr>"

record Player =
  stats :: PlayerStats
  ui :: "UICall list"

definition Player_spendMana :: "real \<Rightarrow> Player \<Rightarrow> bool \<times> Player" where
  "Player_spendMana amount pl =
     (case PlayerStats_spendMana amount (stats pl) of
        (True, st) \<Rightarrow> (True, pl\<lparr>stats := recordSpellCast st\<rparr>)
      | (False, st) \<Rightarrow> (False, pl\<lparr>stats := st\<rparr>))"

definition Simple_waterBallQuick :: SpellData where
  "Simple_waterBallQuick = \<lparr>name = ''Water Ball Rapida'', manaCost = 10, projectileSpeed = 15,
     projectileSize = 0.3, damage = 25, color = (0.3, 0.7, 1.0), castTime = 0.2\<rparr>"

definition Simple_waterBallCharged :: SpellData where
  "Simple_waterBallCharged = \<lparr>name = ''Water Ball Carregada'', manaCost = 25, projectileSpeed = 12,
     projectileSize = 0.6, damage = 60, color = (0.2, 0.5, 0.9), castTime = 1.5\<rparr>"

record SimpleMagicController =
  player :: Player
  targetMeshes :: "vec3 option list"
  isCasting :: bool
  castStartTime :: real
  activeProjectiles :: "Projectile list"

definition Simple_startCasting :: "real \<Rightarrow> SimpleMagicController \<Rightarrow> SimpleMagicController" where
  "Simple_startCasting now mc =
     (if SimpleMagicController.isCasting mc then mc
      else mc\<lparr>SimpleMagicController.isCasting := True,
              SimpleMagicController.castStartTime := now,
              player := (player mc)\<lparr>ui := ui (player mc) @ [ShowCastingBar]\<rparr>\<rparr>)"

definition Simple_createProjectile ::
  "vec3 \<Rightarrow> vec3 \<Rightarrow> SpellData \<Rightarrow> SimpleMagicController \<Rightarrow> SimpleMagicController" where
  "Simple_createProjectile playerPos cameraDir spell mc =
     (let spawnPos0 = vadd playerPos (vscale cameraDir 1.5);
          spawnPos = (vx spawnPos0, vy spawnPos0 + 1.5, vz spawnPos0);
          projectileData = \<lparr>mesh = \<lparr>position = spawnPos, scaling = (1, 1, 1),
                                     diameter = projectileSize spell * 2\<rparr>,
                            direction = vnormalize cameraDir,
                            speed = projectileSpeed spell,
                            projectileDamage = damage spell,
                            lifetime = 0,
                            maxLifetime = 5\<rparr>
      in mc\<lparr>SimpleMagicController.activeProjectiles :=
              SimpleMagicController.activeProjectiles mc @ [projectileData]\<rparr>)"

definition Simple_castSpell ::
  "vec3 \<Rightarrow> vec3 \<Rightarrow> SpellData \<Rightarrow> SimpleMagicController \<Rightarrow> SimpleMagicController" where
  "Simple_castSpell playerPos cameraDir spell mc =
     (case Player_spendMana (manaCost spell) (player mc) of
        (False, _) \<Rightarrow> mc
      | (True, pl) \<Rightarrow> Simple_createProjectile playerPos cameraDir spell (mc\<lparr>player := pl\<rparr>))"

text \<open>
  The spell chosen at release: the quick tier below the literal \<open>0.3\<close>, which is the
  double just below 0.3, the charged tier otherwise.
\<close>

definition Simple_spell :: "real \<Rightarrow> SpellData" where
  "Simple_spell castTime' =
     (if castTime' < double 0.3 then Simple_waterBallQuick else Simple_waterBallCharged)"

definition Simple_finishCasting ::
  "real \<Rightarrow> vec3 \<Rightarrow> vec3 \<Rightarrow> SimpleMagicController \<Rightarrow> SimpleMagicController" where
  "Simple_finishCasting now playerPos cameraDir mc =
     (if \<not> SimpleMagicController.isCasting mc then mc
      else (let castTime' = ddiv (dsub now (SimpleMagicController.castStartTime mc)) 1000;
                spell = Simple_spell castTime';
                mc1 = Simple_castSpell playerPos cameraDir spell mc;
                mc2 = mc1\<lparr>SimpleMagicController.isCasting := False\<rparr>
            in mc2\<lparr>player := (player mc2)\<lparr>ui := ui (player mc2) @ [HideCastingBar]\<rparr>\<rparr>))"

fun Simple_hitsTarget :: "Projectile \<Rightarrow> vec3 option list \<Rightarrow> bool" where
  "Simple_hitsTarget projectile [] = False"
| "Simple_hitsTarget projectile (None # targets) = Simple_hitsTarget projectile targets"
| "Simple_hitsTarget projectile (Some targetPos # targets) =
     (let distance = Distance (position (mesh projectile)) targetPos
      in if distance < 1.0 then True else Simple_hitsTarget projectile targets)"

definition Simple_checkProjectileCollisions :: "vec3 option list \<Rightarrow> Projectile \<Rightarrow> bool" where
  "Simple_checkProjectileCollisions targets projectile =
     (if Simple_hitsTarget projectile targets then True
      else if vy (position (mesh projectile)) < 0.5 then True
      else False)"

definition Simple_projectileTick ::
  "real \<Rightarrow> vec3 option list \<Rightarrow> Projectile \<Rightarrow> Projectile option" where
  "Simple_projectileTick deltaTime targets p =
     (let projectile = moveProjectile deltaTime p in
      if Simple_checkProjectileCollisions targets projectile then None
      else if lifetime projectile \<ge> maxLifetime projectile then None
      else Some projectile)"

fun updateProjectilesLoop ::
  "real \<Rightarrow> vec3 option list \<Rightarrow> nat \<Rightarrow> Projectile list \<Rightarrow> Projectile list" where
  "updateProjectilesLoop deltaTime targets 0 ps = ps"
| "updateProjectilesLoop deltaTime targets (Suc i) ps =
     (case Simple_projectileTick deltaTime targets (ps ! i) of
        None \<Rightarrow> updateProjectilesLoop deltaTime targets i (removeProjectile i ps)
      | Some projectile \<Rightarrow> updateProjectilesLoop deltaTime targets i (ps[i := projectile]))"

definition updateProjectiles :: "real \<Rightarrow> SimpleMagicController \<Rightarrow> SimpleMagicController" where
  "updateProjectiles deltaTime mc =
     mc\<lparr>SimpleMagicController.activeProjectiles :=
          updateProjectilesLoop deltaTime (SimpleMagicController.targetMeshes mc)
            (length (SimpleMagicController.activeProjectiles mc))
            (SimpleMagicController.activeProjectiles mc)\<rparr>"

fun Simple_removedAt :: "vec3 option list \<Rightarrow> real list \<Rightarrow> Projectile \<Rightarrow> nat option" where
  "Simple_removedAt targets [] p = None"
| "Simple_removedAt targets (dt # dts) p =
     (case Simple_projectileTick dt targets p of
        None \<Rightarrow> Some 0
      | Some q \<Rightarrow> map_option Suc (Simple_removedAt targets dts q))"


section \<open>\<open>InputManager\<close>\<close>

record InputState =
  forward :: bool
  backward :: bool
  left :: bool
  right :: bool
  sprint :: bool
  jump :: bool
  mouseMovement :: "real \<times> real"
  scroll :: real
  primaryClick :: bool
  primaryHold :: bool
  pause :: bool

definition isMoving :: "InputState \<Rightarrow> bool" where
  "isMoving inputState =
     (forward inputState \<or> backward inputState \<or> left inputState \<or> right inputState)"

text \<open>
  The counters \<open>x\<close> and \<open>z\<close>, the length and the two divisions are computed in
  doubles.
\<close>

definition getMovementVector :: "InputState \<Rightarrow> real \<times> real" where
  "getMovementVector inputState =
     (let x0 = (0::real); z0 = (0::real);
          x1 = (if left inputState then dsub x0 1 else x0);
          x2 = (if right inputState then dadd x1 1 else x1);
          z1 = (if forward inputState then dadd z0 1 else z0);
          z2 = (if backward inputState then dsub z1 1 else z1);
          length' = Math_sqrt (dadd (dmul x2 x2) (dmul z2 z2))
      in if length' > 0 then (ddiv x2 length', ddiv z2 length') else (x2, z2))"

section \<open>\<open>PlayerMovement\<close>: the two classes of that name\<close>

text \<open>
  The physics body belongs to the engine. The model keeps the linear velocity that
  \<open>getLinearVelocity\<close> reports and the impulses handed to \<open>applyImpulse\<close> (impulse and
  point of application), in order; what the engine makes of an impulse is its own.
\<close>

record PhysicsBody =
  linearVelocity :: vec3
  impulses :: "(vec3 \<times> vec3) list"

definition applyImpulse :: "vec3 \<Rightarrow> vec3 \<Rightarrow> PhysicsBody \<Rightarrow> PhysicsBody" where
  "applyImpulse impulse location b = b\<lparr>impulses := impulses b @ [(impulse, location)]\<rparr>"

definition horizontalSpeed :: "vec3 \<Rightarrow> real" where
  "horizontalSpeed velocity = sqrt (vx velocity * vx velocity + vz velocity * vz velocity)"

subsection \<open>The class with the thresholds in its configuration\<close>

record MovementConfig =
  walkSpeed :: real
  runSpeed :: real
  jumpForce :: real
  airControl :: real
  groundCheckDistance :: real
  dampingFactor :: real
  rotationSpeed :: real
  mass :: real
  jumpThreshold :: real
  runThreshold :: real
  walkThreshold :: real

definition defaultMovementConfig :: MovementConfig where
  "defaultMovementConfig = \<lparr>walkSpeed = 4.0, runSpeed = 8.0, jumpForce = 8.0, airControl = 0.3,
     groundCheckDistance = 0.2, dampingFactor = 0.90, rotationSpeed = 15.0, mass = 1.0,
     jumpThreshold = 0.5, runThreshold = 6.0, walkThreshold = 0.5\<rparr>"

text \<open>
  \<open>onJumpSet\<close> says whether a callback \<open>onJump\<close> is registered, \<open>onJumpCalls\<close>
  counts its calls, \<open>stateChanges\<close> logs the notifications (old state, new state).
\<close>

record PlayerMovement =
  currentState :: MovementState
  isGrounded :: bool
  config :: MovementConfig
  body :: PhysicsBody
  absolutePosition :: vec3
  onJumpSet :: bool
  onJumpCalls :: nat
  stateChanges :: "(MovementState \<times> MovementState) list"

text \<open>
  \<open>update\<close> calls \<open>this.applyGravity\<close>, \<open>this.handleMovement\<close> and
  \<open>this.updateGrounding\<close> before it resolves the state. The class defines none of the
  three and extends no class: each lookup yields \<open>undefined\<close>, and calling it throws a
  \<open>TypeError\<close>. A method of the class is \<open>Some\<close> of its body, a missing one is \<open>None\<close>.
\<close>

definition PlayerMovement_applyGravity :: "(real \<Rightarrow> PlayerMovement \<Rightarrow> PlayerMovement) option" where
  "PlayerMovement_applyGravity = None"

definition PlayerMovement_handleMovement :: "(real \<Rightarrow> PlayerMovement \<Rightarrow> PlayerMovement) option" where
  "PlayerMovement_handleMovement = None"

definition PlayerMovement_updateGrounding :: "(PlayerMovement \<Rightarrow> PlayerMovement) option" where
  "PlayerMovement_updateGrounding = None"

definition callMethod :: "('s \<Rightarrow> 's) option \<Rightarrow> 's \<Rightarrow> error + 's" where
  "callMethod m s = (case m of None \<Rightarrow> Inl TypeError | Some method \<Rightarrow> Inr (method s))"

text \<open>The second half of \<open>update\<close>: the state from the physics, and the notification.\<close>

definition resolveState :: "MovementState \<Rightarrow> PlayerMovement \<Rightarrow> PlayerMovement" where
  "resolveState previousState pm =
     (let newState =
            (if \<not> isGrounded pm then
               (let verticalVelocity = vy (linearVelocity (body pm)) in
                if verticalVelocity > jumpThreshold (config pm) then JUMPING else FALLING)
             else
               (let hs = horizontalSpeed (linearVelocity (body pm)) in
                if hs > runThreshold (config pm) then RUNNING
                else if hs > walkThreshold (config pm) then WALKING
                else IDLE));
          pm1 = pm\<lparr>PlayerMovement.currentState := newState\<rparr>
      in if newState \<noteq> previousState
         then pm1\<lparr>stateChanges := stateChanges pm1 @ [(previousState, newState)]\<rparr>
         else pm1)"

definition PlayerMovement_update :: "real \<Rightarrow> PlayerMovement \<Rightarrow> error + PlayerMovement" where
  "PlayerMovement_update deltaTime pm =
     (let previousState = PlayerMovement.currentState pm in
      case callMethod (map_option (\<lambda>method. method deltaTime) PlayerMovement_applyGravity) pm of
        Inl e \<Rightarrow> Inl e
      | Inr pm1 \<Rightarrow>
          (case callMethod (map_option (\<lambda>method. method deltaTime) PlayerMovement_handleMovement) pm1 of
             Inl e \<Rightarrow> Inl e
           | Inr pm2 \<Rightarrow>
               (case callMethod PlayerMovement_updateGrounding pm2 of
                  Inl e \<Rightarrow> Inl e
                | Inr pm3 \<Rightarrow> Inr (resolveState previousState pm3))))"

definition PlayerMovement_jump :: "PlayerMovement \<Rightarrow> PlayerMovement" where
  "PlayerMovement_jump pm =
     (if \<not> isGrounded pm then pm
      else (let jumpImpulse = (0, jumpForce (config pm), 0);
                pm1 = pm\<lparr>body := applyImpulse jumpImpulse (absolutePosition pm) (body pm)\<rparr>
            in if onJumpSet pm1 then pm1\<lparr>onJumpCalls := onJumpCalls pm1 + 1\<rparr> else pm1))"

subsection \<open>The class that reads the sprint key\<close>

record MovementConfig2 =
  walkSpeed :: real
  runSpeed :: real
  jumpForce :: real
  airControl :: real
  groundCheckDistance :: real
  dampingFactor :: real
  rotationSpeed :: real
  mass :: real

definition defaultMovementConfig2 :: MovementConfig2 where
  "defaultMovementConfig2 = \<lparr>walkSpeed = 4.0, runSpeed = 8.0, jumpForce = 8.0, airControl = 0.3,
     groundCheckDistance = 0.2, dampingFactor = 0.90, rotationSpeed = 15.0, mass = 1.0\<rparr>"

record PlayerMovement2 =
  currentState :: MovementState
  isGrounded :: bool
  config :: MovementConfig2
  body :: PhysicsBody
  absolutePosition :: vec3
  onJumpSet :: bool
  onJumpCalls :: nat
  stateChanges :: "(MovementState \<times> MovementState) list"

definition updateState :: "InputState \<Rightarrow> PlayerMovement2 \<Rightarrow> PlayerMovement2" where
  "updateState inputState pm =
     (let currentVelocity = linearVelocity (PlayerMovement2.body pm);
          hs = horizontalSpeed currentVelocity;
          oldState = PlayerMovement2.currentState pm;
          newState =
            (if \<not> PlayerMovement2.isGrounded pm then
               (if vy currentVelocity > 0.5 then JUMPING else FALLING)
             else if hs > 0.5 then
               (if sprint inputState \<and>
                   hs > MovementConfig2.walkSpeed (PlayerMovement2.config pm) * 0.8
                then RUNNING else WALKING)
             else IDLE);
          pm1 = pm\<lparr>PlayerMovement2.currentState := newState\<rparr>
      in if oldState \<noteq> newState
         then pm1\<lparr>PlayerMovement2.stateChanges :=
                PlayerMovement2.stateChanges pm1 @ [(oldState, newState)]\<rparr>
         else pm1)"

definition PlayerMovement2_jump :: "PlayerMovement2 \<Rightarrow> PlayerMovement2" where
  "PlayerMovement2_jump pm =
     (if \<not> PlayerMovement2.isGrounded pm then pm
      else (let jumpImpulse = (0, MovementConfig2.jumpForce (PlayerMovement2.config pm), 0);
                pm1 = pm\<lparr>PlayerMovement2.body :=
                        applyImpulse jumpImpulse (PlayerMovement2.absolutePosition pm)
                          (PlayerMovement2.body pm)\<rparr>;
                pm2 = pm1\<lparr>PlayerMovement2.isGrounded := False\<rparr>
            in if PlayerMovement2.onJumpSet pm2
               then pm2\<lparr>PlayerMovement2.onJumpCalls := PlayerMovement2.onJumpCalls pm2 + 1\<rparr>
               else pm2))"

text \<open>
  The resolution order in the words of the specification, over a jump, a run and a walk
  threshold, to be compared with \<open>updateState\<close>.
\<close>

definition specResolution ::
  "real \<Rightarrow> real \<Rightarrow> real \<Rightarrow> bool \<Rightarrow> real \<Rightarrow> real \<Rightarrow> bool \<Rightarrow> MovementState" where
  "specResolution jumpTh runTh walkTh grounded verticalVelocity hs sprintHeld =
     (if \<not> grounded \<and> verticalVelocity > jumpTh then JUMPING
      else if \<not> grounded then FALLING
      else if hs > runTh \<and> sprintHeld then RUNNING
      else if hs > walkTh then WALKING
      else IDLE)"

section \<open>\<open>ThirdPersonCamera\<close>\<close>

record CameraConfig =
  minDistance :: real
  maxDistance :: real
  minHeight :: real
  maxHeight :: real
  sensitivity :: real
  smoothing :: real
  zoomSpeed :: real
  defaultDistance :: real
  defaultHeight :: real

text \<open>\<open>Partial<CameraConfig>\<close>: every field may be absent.\<close>

record PartialCameraConfig =
  minDistance_opt :: "real option"
  maxDistance_opt :: "real option"
  minHeight_opt :: "real option"
  maxHeight_opt :: "real option"
  sensitivity_opt :: "real option"
  smoothing_opt :: "real option"
  zoomSpeed_opt :: "real option"
  defaultDistance_opt :: "real option"
  defaultHeight_opt :: "real option"

definition orElse :: "'a option \<Rightarrow> 'a \<Rightarrow> 'a" where
  "orElse new old = (case new of None \<Rightarrow> old | Some v \<Rightarrow> v)"

text \<open>The spread \<open>{ ...config, ...newConfig }\<close>.\<close>

definition mergeConfig :: "CameraConfig \<Rightarrow> PartialCameraConfig \<Rightarrow> CameraConfig" where
  "mergeConfig c n = \<lparr>
     minDistance = orElse (minDistance_opt n) (minDistance c),
     maxDistance = orElse (maxDistance_opt n) (maxDistance c),
     minHeight = orElse (minHeight_opt n) (minHeight c),
     maxHeight = orElse (maxHeight_opt n) (maxHeight c),
     sensitivity = orElse (sensitivity_opt n) (sensitivity c),
     smoothing = orElse (smoothing_opt n) (smoothing c),
     zoomSpeed = orElse (zoomSpeed_opt n) (zoomSpeed c),
     defaultDistance = orElse (defaultDistance_opt n) (defaultDistance c),
     defaultHeight = orElse (defaultHeight_opt n) (defaultHeight c)\<rparr>"

definition defaultCameraConfig :: CameraConfig where
  "defaultCameraConfig = \<lparr>minDistance = 3.0, maxDistance = 15.0, minHeight = 1.0,
     maxHeight = 8.0, sensitivity = 0.005, smoothing = 8.0, zoomSpeed = 2.0,
     defaultDistance = 8.0, defaultHeight = 4.0\<rparr>"

record ThirdPersonCamera =
  cameraConfig :: CameraConfig
  cameraDistance :: real
  cameraHeight :: real
  targetCameraDistance :: real
  targetCameraHeight :: real

text \<open>The constructor, with the optional custom configuration.\<close>

definition newThirdPersonCamera :: "PartialCameraConfig option \<Rightarrow> ThirdPersonCamera" where
  "newThirdPersonCamera custom =
     (let cfg = (case custom of None \<Rightarrow> defaultCameraConfig
                 | Some n \<Rightarrow> mergeConfig defaultCameraConfig n)
      in \<lparr>cameraConfig = cfg, cameraDistance = defaultDistance cfg,
          cameraHeight = defaultHeight cfg, targetCameraDistance = defaultDistance cfg,
          targetCameraHeight = defaultHeight cfg\<rparr>)"

text \<open>The callback registered for \<open>onScrollChange\<close> in \<open>setupInputHandlers\<close>.\<close>

definition onScrollChange :: "real \<Rightarrow> ThirdPersonCamera \<Rightarrow> ThirdPersonCamera" where
  "onScrollChange delta cam =
     (let zoomDelta = (if delta > 0 then 1 else - 1 :: real)
      in cam\<lparr>targetCameraDistance :=
           max (minDistance (cameraConfig cam))
             (min (maxDistance (cameraConfig cam))
                (targetCameraDistance cam + zoomDelta * zoomSpeed (cameraConfig cam)))\<rparr>)"

definition setZoom :: "real \<Rightarrow> ThirdPersonCamera \<Rightarrow> ThirdPersonCamera" where
  "setZoom distance cam =
     cam\<lparr>targetCameraDistance :=
        max (minDistance (cameraConfig cam)) (min (maxDistance (cameraConfig cam)) distance)\<rparr>"

definition updateConfig :: "PartialCameraConfig \<Rightarrow> ThirdPersonCamera \<Rightarrow> ThirdPersonCamera" where
  "updateConfig newConfig cam =
     (let cfg = mergeConfig (cameraConfig cam) newConfig;
          cam1 = cam\<lparr>cameraConfig := cfg\<rparr>;
          cam2 = cam1\<lparr>targetCameraDistance :=
                   max (minDistance cfg) (min (maxDistance cfg) (targetCameraDistance cam1))\<rparr>
      in cam2\<lparr>targetCameraHeight :=
           max (minHeight cfg) (min (maxHeight cfg) (targetCameraHeight cam2))\<rparr>)"

text \<open>Sequences of the three operations that set the target distance.\<close>

datatype ZoomOp = Scroll real | SetZoom real | UpdateConfig PartialCameraConfig

fun zoomOp :: "ZoomOp \<Rightarrow> ThirdPersonCamera \<Rightarrow> ThirdPersonCamera" where
  "zoomOp (Scroll delta) cam = onScrollChange delta cam"
| "zoomOp (SetZoom distance) cam = setZoom distance cam"
| "zoomOp (UpdateConfig newConfig) cam = updateConfig newConfig cam"

fun zoomOps :: "ZoomOp list \<Rightarrow> ThirdPersonCamera \<Rightarrow> ThirdPersonCamera" where
  "zoomOps [] cam = cam"
| "zoomOps (op # ops) cam = zoomOps ops (zoomOp op cam)"

definition limitsConsistent :: "ThirdPersonCamera \<Rightarrow> bool" where
  "limitsConsistent cam = (minDistance (cameraConfig cam) \<le> maxDistance (cameraConfig cam))"

definition targetInBounds :: "ThirdPersonCamera \<Rightarrow> bool" where
  "targetInBounds cam =
     (minDistance (cameraConfig cam) \<le> targetCameraDistance cam \<and>
      targetCameraDistance cam \<le> maxDistance (cameraConfig cam))"

section \<open>Runs of operations\<close>

text \<open>
  Mana regeneration over several frames, each with its frame time and the movement
  state of that frame.
\<close>

fun regenSteps :: "(real \<times> MovementState) list \<Rightarrow> PlayerStats \<Rightarrow> PlayerStats" where
  "regenSteps [] st = st"
| "regenSteps ((deltaTime, movementState) # rest) st =
     regenSteps rest (updateManaRegen deltaTime movementState st)"

fun regenerateSteps :: "(real \<times> MovementState) list \<Rightarrow> PlayerController \<Rightarrow> PlayerController" where
  "regenerateSteps [] pc = pc"
| "regenerateSteps ((deltaTime, movementState) # rest) pc =
     regenerateSteps rest (regenerateMana deltaTime (pc\<lparr>PlayerController.currentState := movementState\<rparr>))"

text \<open>
  A run of zoom operations keeps the limits consistent when after each operation the
  configured minimum distance is at most the maximum.
\<close>

fun limitsStayConsistent :: "ZoomOp list \<Rightarrow> ThirdPersonCamera \<Rightarrow> bool" where
  "limitsStayConsistent [] cam = True"
| "limitsStayConsistent (op # ops) cam =
     (limitsConsistent (zoomOp op cam) \<and> limitsStayConsistent ops (zoomOp op cam))"

section \<open>Sample states\<close>

text \<open>Concrete states and inputs on which the theorems below are instantiated.\<close>

definition lowManaController :: MagicController where
  "lowManaController = \<lparr>playerController = \<lparr>currentMana = 4, maxMana = 100,
       manaRegenRate = 10, currentState = IDLE\<rparr>,
     targetMeshes = [], isCasting = True, castStartTime = 0,
     currentSpell = Some waterBallCharged, activeProjectiles = [], spellsCast = 0,
     uiCalls = [ShowCastingBar]\<rparr>"

text \<open>The spell of a release after 0.6 s; its size is the double that prints as 0.39.\<close>

definition costTenSpell :: SpellData where
  "costTenSpell = waterBallCharged\<lparr>manaCost := 10,
     projectileSize := 3512807709348987 / 9007199254740992, damage := 26\<rparr>"

text \<open>A charged tier that would be fully charged after 1.5 s.\<close>

definition chargedIn1500 :: SpellData where
  "chargedIn1500 = waterBallCharged\<lparr>castTime := 1.5\<rparr>"

text \<open>The double that prints as 0.4000000000000001, two units above the double 0.4.\<close>

definition heldJustOver400 :: real where
  "heldJustOver400 = 7205759403792795 / 18014398509481984"

definition idleController :: MagicController where
  "idleController = \<lparr>playerController = \<lparr>currentMana = 100, maxMana = 100,
       manaRegenRate = 10, currentState = IDLE\<rparr>,
     targetMeshes = [], isCasting = False, castStartTime = 0,
     currentSpell = None, activeProjectiles = [], spellsCast = 0, uiCalls = []\<rparr>"

definition airborneCaster :: PlayerController where
  "airborneCaster = \<lparr>currentMana = 0, maxMana = 100, manaRegenRate = 10,
     PlayerController.currentState = JUMPING\<rparr>"

definition drainedStats :: PlayerStats where
  "drainedStats = \<lparr>mana = 95, maxMana = 100, spellsCast = 0,
     regenConfig = defaultRegenConfig, manaChanges = []\<rparr>"

definition spawnedMain :: Projectile where
  "spawnedMain = last (MagicController.activeProjectiles
     (castSpell (0, 1.5, 0) (0, 0, 1) waterBallQuick idleController))"

definition idleSimpleController :: SimpleMagicController where
  "idleSimpleController = \<lparr>player = \<lparr>stats = \<lparr>mana = 100, maxMana = 100, spellsCast = 0,
       regenConfig = defaultRegenConfig, manaChanges = []\<rparr>, ui = []\<rparr>,
     targetMeshes = [], isCasting = False, castStartTime = 0, activeProjectiles = []\<rparr>"

definition spawnedSimple :: Projectile where
  "spawnedSimple = last (SimpleMagicController.activeProjectiles
     (Simple_castSpell (0, 1, 0) (0, 0, 1) Simple_waterBallQuick idleSimpleController))"

definition fastWalker :: PlayerMovement where
  "fastWalker = \<lparr>PlayerMovement.currentState = WALKING, PlayerMovement.isGrounded = True,
     PlayerMovement.config = defaultMovementConfig,
     PlayerMovement.body = \<lparr>linearVelocity = (7, 0, 0), impulses = []\<rparr>,
     PlayerMovement.absolutePosition = (0, 1, 0), PlayerMovement.onJumpSet = False,
     PlayerMovement.onJumpCalls = 0, PlayerMovement.stateChanges = []\<rparr>"

definition sprinter :: PlayerMovement2 where
  "sprinter = \<lparr>currentState = WALKING, isGrounded = True,
     config = defaultMovementConfig2,
     body = \<lparr>linearVelocity = (0, 0, 4), impulses = []\<rparr>,
     absolutePosition = (0, 1, 0), onJumpSet = False,
     onJumpCalls = 0, stateChanges = []\<rparr>"

text \<open>A slow walker: \<open>walkSpeed\<close> 0.5, on the ground at a horizontal speed of 0.46875.\<close>

definition crawler :: PlayerMovement2 where
  "crawler = \<lparr>currentState = IDLE, isGrounded = True,
     config = defaultMovementConfig2\<lparr>MovementConfig2.walkSpeed := 0.5\<rparr>,
     body = \<lparr>linearVelocity = (0.46875, 0, 0), impulses = []\<rparr>,
     absolutePosition = (0, 1, 0), onJumpSet = False,
     onJumpCalls = 0, stateChanges = []\<rparr>"

definition sprintHeld :: InputState where
  "sprintHeld = \<lparr>forward = True, backward = False, left = False, right = False,
     sprint = True, jump = False, mouseMovement = (0, 0), scroll = 0,
     primaryClick = False, primaryHold = False, pause = False\<rparr>"

definition airbornePlayer :: PlayerMovement where
  "airbornePlayer = \<lparr>PlayerMovement.currentState = FALLING, PlayerMovement.isGrounded = False,
     PlayerMovement.config = defaultMovementConfig,
     PlayerMovement.body = \<lparr>linearVelocity = (1, - 3, 0), impulses = []\<rparr>,
     PlayerMovement.absolutePosition = (0, 5, 0), PlayerMovement.onJumpSet = True,
     PlayerMovement.onJumpCalls = 0, PlayerMovement.stateChanges = []\<rparr>"

definition standingPlayer :: PlayerMovement where
  "standingPlayer = \<lparr>PlayerMovement.currentState = IDLE, PlayerMovement.isGrounded = True,
     PlayerMovement.config = defaultMovementConfig,
     PlayerMovement.body = \<lparr>linearVelocity = (0, 0, 0), impulses = []\<rparr>,
     PlayerMovement.absolutePosition = (0, 1, 0), PlayerMovement.onJumpSet = True,
     PlayerMovement.onJumpCalls = 0, PlayerMovement.stateChanges = []\<rparr>"

text \<open>The double that prints as 0.7071067811865475.\<close>

definition diagonalComponent :: real where
  "diagonalComponent = 1592262918131443 / 2251799813685248"

definition diagonalInput :: InputState where
  "diagonalInput = \<lparr>forward = True, backward = False, left = False, right = True,
     sprint = False, jump = False, mouseMovement = (0, 0), scroll = 0,
     primaryClick = False, primaryHold = False, pause = False\<rparr>"

definition raiseMinimum :: PartialCameraConfig where
  "raiseMinimum = \<lparr>minDistance_opt = Some 20, maxDistance_opt = None, minHeight_opt = None,
     maxHeight_opt = None, sensitivity_opt = None, smoothing_opt = None, zoomSpeed_opt = None,
     defaultDistance_opt = None, defaultHeight_opt = None\<rparr>"

definition narrowLimits :: PartialCameraConfig where
  "narrowLimits = \<lparr>minDistance_opt = Some 5, maxDistance_opt = Some 9, minHeight_opt = None,
     maxHeight_opt = None, sensitivity_opt = None, smoothing_opt = None, zoomSpeed_opt = None,
     defaultDistance_opt = None, defaultHeight_opt = None\<rparr>"

section \<open>Evaluating doubles\<close>

text \<open>
  The unit in the last place of a number between two powers of two, above and below 1.
\<close>

lemma floor_log2_eq:
  fixes x :: real and e :: int
  assumes "2 powr of_int e \<le> x" "x < 2 powr (of_int e + 1)"
  shows "\<lfloor>log 2 x\<rfloor> = e"
proof -
  have pos: "0 < x" using assms(1) by (smt (verit) powr_gt_zero)
  have "of_int e \<le> log 2 x" using assms(1) pos by (simp add: le_log_iff)
  moreover have "log 2 x < of_int e + 1" using assms(2) pos by (simp add: log_less_iff)
  ultimately show ?thesis by (simp add: floor_eq_iff)
qed

lemma ulp_ge1:
  assumes "2 ^ n \<le> \<bar>x\<bar>" "\<bar>x\<bar> < 2 ^ Suc n"
  shows "ulp x = 2 ^ n / 2 ^ 52"
proof -
  have "\<lfloor>log 2 \<bar>x\<bar>\<rfloor> = int n"
  proof (rule floor_log2_eq)
    show "2 powr real_of_int (int n) \<le> \<bar>x\<bar>" using assms(1) by (simp add: powr_realpow)
    have "2 powr (real_of_int (int n) + 1) = (2::real) ^ Suc n"
      by (simp add: powr_add powr_realpow)
    then show "\<bar>x\<bar> < 2 powr (real_of_int (int n) + 1)" using assms(2) by simp
  qed
  then have "ulp x = 2 powr (real n - 52)" by (simp add: ulp_def)
  also have "\<dots> = 2 powr real n / 2 powr 52" by (simp add: powr_diff)
  also have "\<dots> = 2 ^ n / 2 ^ 52" by (simp add: powr_realpow)
  finally show ?thesis .
qed

lemma ulp_lt1:
  assumes "1 / 2 ^ n \<le> \<bar>x\<bar>" "\<bar>x\<bar> < 2 / 2 ^ n" "n \<le> 1022"
  shows "ulp x = 1 / 2 ^ (n + 52)"
proof -
  have "\<lfloor>log 2 \<bar>x\<bar>\<rfloor> = - int n"
  proof (rule floor_log2_eq)
    have "2 powr real_of_int (- int n) = 1 / (2::real) ^ n"
      by (simp add: powr_minus powr_realpow divide_inverse)
    then show "2 powr real_of_int (- int n) \<le> \<bar>x\<bar>" using assms(1) by simp
    have "2 powr (real_of_int (- int n) + 1) = 2 powr (- real n) * (2::real) powr 1"
      by (simp only: powr_add [symmetric]) simp
    also have "\<dots> = 2 / (2::real) ^ n"
      by (simp add: powr_minus powr_realpow divide_inverse)
    finally have "2 powr (real_of_int (- int n) + 1) = 2 / (2::real) ^ n" .
    then show "\<bar>x\<bar> < 2 powr (real_of_int (- int n) + 1)" using assms(2) by simp
  qed
  then have "ulp x = 2 powr (- real n - 52)" using assms(3) by (simp add: ulp_def)
  also have "\<dots> = 2 powr (- real (n + 52))" by simp
  also have "\<dots> = 1 / 2 ^ (n + 52)"
    by (simp only: powr_minus powr_realpow) (simp add: divide_inverse)
  finally show ?thesis .
qed

lemmas ulp_binades =
  ulp_ge1 [where n = 0] ulp_ge1 [where n = 1] ulp_ge1 [where n = 2] ulp_ge1 [where n = 3]
  ulp_ge1 [where n = 4] ulp_ge1 [where n = 5] ulp_ge1 [where n = 9]
  ulp_lt1 [where n = 1] ulp_lt1 [where n = 2] ulp_lt1 [where n = 3] ulp_lt1 [where n = 4]

lemmas double_ops = dadd_def dsub_def dmul_def ddiv_def Math_ceil_def

lemma roundHalfEven_up:
  "of_int m + 1 / 2 < x \<Longrightarrow> x < of_int m + 1 \<Longrightarrow> roundHalfEven x = m + 1"
proof -
  assume a: "of_int m + 1 / 2 < x" "x < of_int m + 1"
  then have "\<lfloor>x\<rfloor> = m" by (simp add: floor_eq_iff)
  with a show ?thesis by (simp add: roundHalfEven_def Let_def)
qed

lemma roundHalfEven_down:
  "of_int m \<le> x \<Longrightarrow> x < of_int m + 1 / 2 \<Longrightarrow> roundHalfEven x = m"
proof -
  assume a: "of_int m \<le> x" "x < of_int m + 1 / 2"
  then have "\<lfloor>x\<rfloor> = m" by (simp add: floor_eq_iff)
  with a show ?thesis by (simp add: roundHalfEven_def Let_def)
qed

text \<open>Small integers and halves are doubles; the literals 0.3, 0.6 and 0.2 are not.\<close>

lemma double_small_integers:
  "double 0 = 0" "double 1 = 1" "double (- 1) = - 1" "double 2 = 2"
  "double 15 = 15" "double 35 = 35"
  by (simp_all add: double_def ulp_ge1 [where n = 0] ulp_ge1 [where n = 1]
      ulp_ge1 [where n = 3] ulp_ge1 [where n = 5] roundHalfEven_def Let_def)

lemma double_halves:
  "double (1 / 2) = 1 / 2" "double (3 / 4) = 3 / 4" "double (15 / 2) = 15 / 2"
  "double (25 / 2) = 25 / 2" "double (35 / 2) = 35 / 2" "double (65 / 2) = 65 / 2"
  "double (19 / 2) = 19 / 2" "double (51 / 2) = 51 / 2"
  by (simp_all add: double_def ulp_lt1 [where n = 1] ulp_ge1 [where n = 2]
      ulp_ge1 [where n = 3] ulp_ge1 [where n = 4] ulp_ge1 [where n = 5]
      roundHalfEven_def Let_def)

lemma double_literals:
  "double (3 / 10) = 5404319552844595 / 18014398509481984"
  "double (3 / 5) = 5404319552844595 / 9007199254740992"
  "double (1 / 5) = 3602879701896397 / 18014398509481984"
  by (simp_all add: double_def ulp_lt1 [where n = 2] ulp_lt1 [where n = 1] ulp_lt1 [where n = 3]
      roundHalfEven_def Let_def)

lemma double_ops_small:
  "dsub 0 1 = - 1" "dadd (- 1) 1 = 0" "dadd 0 1 = 1" "dsub 1 1 = 0"
  "dmul 0 0 = 0" "dmul 1 1 = 1" "dmul (- 1) (- 1) = 1"
  "dadd 0 0 = 0" "dadd 1 0 = 1" "dadd 1 1 = 2"
  "ddiv 1 1 = 1" "ddiv (- 1) 1 = - 1" "ddiv 0 1 = 0" "ddiv 0 y = 0"
  by (simp_all add: dadd_def dsub_def dmul_def ddiv_def double_small_integers)

lemma tier_differences: "dsub 20 5 = 15" "dsub 50 15 = 35"
  by (simp_all add: dsub_def double_small_integers)

text \<open>
  The literal \<open>0.2\<close> of the quick threshold: for a held time that is a double,
  comparing with the literal is comparing with 0.2.
\<close>

lemma quick_threshold_literal:
  assumes "double h = h"
  shows "h < double 0.2 \<longleftrightarrow> h < 0.2"
proof
  assume "h < 0.2"
  then show "h < double 0.2" by (simp add: double_literals)
next
  assume below: "h < double 0.2"
  show "h < 0.2"
  proof (rule ccontr)
    assume "\<not> h < 0.2"
    then have ge: "1 / 5 \<le> h" by simp
    from below have lt: "h < 3602879701896397 / 18014398509481984"
      by (simp add: double_literals)
    have u: "ulp h = 1 / 2 ^ 55"
      using ulp_lt1 [where n = 3 and x = h] ge lt by simp
    define k where "k = roundHalfEven (h / ulp h)"
    have hk: "h = of_int k / 2 ^ 55"
      using assms ge by (simp add: double_def k_def u)
    have "real_of_int k < 7205759403792794" using lt by (simp add: hk)
    then have up: "k < 7205759403792794" by simp
    have "7205759403792793 < real_of_int k" using ge by (simp add: hk)
    then have "7205759403792793 < k" by simp
    with up show False by simp
  qed
qed

text \<open>\<open>Math.sqrt(2)\<close> is 1.4142135623730951, and 1 divided by it 0.7071067811865475.\<close>

lemma sqrt2_bounds:
  "6369051672525772 / 4503599627370496 + 1 / 9007199254740992 < sqrt 2"
  "sqrt 2 < 6369051672525773 / 4503599627370496"
  by (rule real_less_rsqrt, simp add: power2_eq_square)
     (rule real_less_lsqrt, simp_all add: power2_eq_square)

lemma Math_sqrt_2: "Math_sqrt 2 = 6369051672525773 / 4503599627370496"
proof -
  have u: "ulp (sqrt 2) = 1 / 2 ^ 52"
    using ulp_ge1 [where n = 0 and x = "sqrt 2"] sqrt2_bounds by simp
  have "roundHalfEven (sqrt 2 / ulp (sqrt 2)) = 6369051672525772 + 1"
    using sqrt2_bounds by (intro roundHalfEven_up) (simp_all add: u)
  then show ?thesis by (simp add: Math_sqrt_def double_def u)
qed

lemma Math_sqrt_0_1: "Math_sqrt 0 = 0" "Math_sqrt 1 = 1"
  by (simp_all add: Math_sqrt_def double_small_integers)

lemma Math_sqrt_2_pos: "0 < Math_sqrt 2"
  by (simp add: Math_sqrt_2)

lemma ddiv_sqrt2:
  "ddiv 1 (6369051672525773 / 4503599627370496) = 6369051672525772 / 9007199254740992"
  "ddiv (- 1) (6369051672525773 / 4503599627370496) = - (6369051672525772 / 9007199254740992)"
  by (simp_all add: ddiv_def double_def ulp_lt1 [where n = 1] roundHalfEven_def Let_def)

lemma ddiv_by_sqrt2:
  "ddiv 1 (Math_sqrt 2) = diagonalComponent"
  "ddiv (- 1) (Math_sqrt 2) = - diagonalComponent"
  by (simp_all add: Math_sqrt_2 ddiv_sqrt2 diagonalComponent_def)

text \<open>The operations of the interpolation at the held times used below.\<close>

lemma held_time_is_double_examples:
  "ddiv (dsub 1000 0) 1000 = 1" "ddiv (dsub 750 0) 1000 = 3 / 4"
  by (simp_all add: double_ops double_def ulp_binades roundHalfEven_def Let_def)

lemma partial_charge_half:
  "Math_ceil (dadd 5 (dmul (dsub 20 5) (1 / 2))) = 13"
  "Math_ceil (dadd 15 (dmul (dsub 50 15) (1 / 2))) = 33"
  by (simp_all add: double_ops double_def ulp_binades roundHalfEven_def Let_def)

lemma size_half:
  "dadd (double (3 / 10)) (dmul (dsub (double (3 / 5)) (double (3 / 10))) (1 / 2)) =
     2026619832316723 / 4503599627370496"
  by (simp add: double_ops double_literals double_def ulp_binades roundHalfEven_def Let_def)

lemma held400_ratio:
  "ddiv (7205759403792795 / 18014398509481984) 2 = 7205759403792795 / 36028797018963968"
  by (simp add: ddiv_def double_def ulp_lt1 [where n = 3] roundHalfEven_def Let_def)

lemma held400_cost_product:
  "dmul 15 (7205759403792795 / 36028797018963968) = 6755399441055745 / 2251799813685248"
  by (simp add: dmul_def double_def ulp_ge1 [where n = 1] roundHalfEven_def Let_def)

lemma held400_cost_sum:
  "dadd 5 (6755399441055745 / 2251799813685248) = 8"
  by (simp add: dadd_def double_def ulp_ge1 [where n = 3] roundHalfEven_def Let_def)

lemma held400_damage_product:
  "dmul 35 (7205759403792795 / 36028797018963968) = 3940649673949185 / 562949953421312"
  by (simp add: dmul_def double_def ulp_ge1 [where n = 2] roundHalfEven_def Let_def)

lemma held400_damage_sum:
  "dadd 15 (3940649673949185 / 562949953421312) = 22"
  by (simp add: dadd_def double_def ulp_ge1 [where n = 4] roundHalfEven_def Let_def)

lemma size_difference:
  "dsub (5404319552844595 / 9007199254740992) (5404319552844595 / 18014398509481984) =
     5404319552844595 / 18014398509481984"
  by (simp add: dsub_def double_def ulp_lt1 [where n = 2] roundHalfEven_def Let_def)

lemma held400_size_product:
  "dmul (5404319552844595 / 18014398509481984) (7205759403792795 / 36028797018963968) =
     4323455642275677 / 72057594037927936"
  by (simp add: dmul_def double_def ulp_lt1 [where n = 5] roundHalfEven_def Let_def)

lemma held400_size_sum:
  "dadd (5404319552844595 / 18014398509481984) (4323455642275677 / 72057594037927936) =
     3242591731706757 / 9007199254740992"
  by (simp add: dadd_def double_def ulp_lt1 [where n = 2] roundHalfEven_def Let_def)

lemma held600_ratio:
  "ddiv (3 / 5) 2 = 5404319552844595 / 18014398509481984"
  by (simp add: ddiv_def double_def ulp_lt1 [where n = 2] roundHalfEven_def Let_def)

lemma held600_cost_product:
  "dmul 15 (5404319552844595 / 18014398509481984) = 9 / 2"
  by (simp add: dmul_def double_def ulp_ge1 [where n = 2] roundHalfEven_def Let_def)

lemma held600_damage_product:
  "dmul 35 (5404319552844595 / 18014398509481984) = 21 / 2"
  by (simp add: dmul_def double_def ulp_ge1 [where n = 3] roundHalfEven_def Let_def)

lemma held600_size_product:
  "dmul (5404319552844595 / 18014398509481984) (5404319552844595 / 18014398509481984) =
     3242591731706757 / 36028797018963968"
  by (simp add: dmul_def double_def ulp_lt1 [where n = 4] roundHalfEven_def Let_def)

lemma held600_size_sum:
  "dadd (5404319552844595 / 18014398509481984) (3242591731706757 / 36028797018963968) =
     3512807709348987 / 9007199254740992"
  by (simp add: dadd_def double_def ulp_lt1 [where n = 2] roundHalfEven_def Let_def)

lemma sums_of_halves:
  "dadd 5 (9 / 2) = 19 / 2"
  by (simp add: dadd_def double_def ulp_ge1 [where n = 3] roundHalfEven_def Let_def)

lemma sums_of_halves2:
  "dadd 15 (21 / 2) = 51 / 2"
  by (simp add: dadd_def double_def ulp_ge1 [where n = 4] roundHalfEven_def Let_def)

section \<open>Charge casting\<close>

text \<open>
  \<open>startCasting\<close> opens a session towards the charged tier: from then on the
  controller is casting, the start time is the time of the press and \<open>currentSpell\<close>
  is the charged Water Ball.
\<close>

lemma startCasting_sets_charged:
  "\<not> MagicController.isCasting mc \<Longrightarrow>
     MagicController.isCasting (startCasting t mc) \<and>
     MagicController.castStartTime (startCasting t mc) = t \<and>
     currentSpell (startCasting t mc) = Some waterBallCharged"
  by (simp add: startCasting_def)

text \<open>
  At release each controller casts the spell resolved from the held time, which is the
  difference of the two clock values divided by 1000, in doubles.
\<close>

lemma finishCasting_resolved:
  "MagicController.isCasting mc \<Longrightarrow>
   spellTocast (ddiv (dsub now (MagicController.castStartTime mc)) 1000) (currentSpell mc) = Inr sp \<Longrightarrow>
   finishCasting now staffTip staffDir mc =
     Inr ((castSpell staffTip staffDir sp mc)\<lparr>MagicController.isCasting := False,
        currentSpell := None,
        uiCalls := uiCalls (castSpell staffTip staffDir sp mc) @ [HideCastingBar]\<rparr>)"
  by (simp add: finishCasting_def Let_def)

lemma Simple_finishCasting_resolved:
  "SimpleMagicController.isCasting smc \<Longrightarrow>
   Simple_finishCasting now playerPos cameraDir smc =
     (let held = ddiv (dsub now (SimpleMagicController.castStartTime smc)) 1000;
          mc1 = Simple_castSpell playerPos cameraDir
                  (if held < double 0.3 then Simple_waterBallQuick else Simple_waterBallCharged) smc
      in mc1\<lparr>SimpleMagicController.isCasting := False,
              player := (player mc1)\<lparr>ui := ui (player mc1) @ [HideCastingBar]\<rparr>\<rparr>)"
  by (simp add: Simple_finishCasting_def Simple_spell_def Let_def)

text \<open>
  A press at 0 ms and a release at 1000 ms with full mana: a half-charged spell of cost
  13 and damage 33 leaves the staff, of size 0.44999999999999996.
\<close>

lemma half_charge:
  "spellTocast 1 (Some waterBallCharged) =
     Inr (waterBallCharged\<lparr>manaCost := 13,
       projectileSize := 2026619832316723 / 4503599627370496, damage := 33\<rparr>)"
  using partial_charge_half size_half
  by (simp add: spellTocast_def waterBallCharged_def waterBallQuick_def Let_def ddiv_def
      double_halves)

lemma press_and_release_example:
  "finishCasting 1000 (0, 1.5, 0) (0, 0, 1) (startCasting 0 idleController) =
     Inr (idleController\<lparr>
       playerController := (playerController idleController)\<lparr>currentMana := 87\<rparr>,
       MagicController.activeProjectiles :=
         [\<lparr>mesh = \<lparr>position = (0, 1.5, 0.3), scaling = (1, 1, 1),
                    diameter = 2026619832316723 / 2251799813685248\<rparr>,
           direction = (0, 0, 1), speed = 15, projectileDamage = 33, lifetime = 0,
           maxLifetime = 8\<rparr>],
       MagicController.spellsCast := 1,
       uiCalls := [ShowCastingBar, HideCastingBar]\<rparr>)"
proof -
  have casting: "MagicController.isCasting (startCasting 0 idleController)"
    "MagicController.castStartTime (startCasting 0 idleController) = 0"
    "currentSpell (startCasting 0 idleController) = Some waterBallCharged"
    by (simp_all add: startCasting_def idleController_def)
  have "finishCasting 1000 (0, 1.5, 0) (0, 0, 1) (startCasting 0 idleController) =
     Inr ((castSpell (0, 1.5, 0) (0, 0, 1)
            (waterBallCharged\<lparr>manaCost := 13,
               projectileSize := 2026619832316723 / 4503599627370496, damage := 33\<rparr>)
            (startCasting 0 idleController))\<lparr>MagicController.isCasting := False,
        currentSpell := None,
        uiCalls := uiCalls (castSpell (0, 1.5, 0) (0, 0, 1)
            (waterBallCharged\<lparr>manaCost := 13,
               projectileSize := 2026619832316723 / 4503599627370496, damage := 33\<rparr>)
            (startCasting 0 idleController)) @ [HideCastingBar]\<rparr>)"
    using casting half_charge
    by (intro finishCasting_resolved) (simp_all add: held_time_is_double_examples)
  then show ?thesis
    by (simp add: startCasting_def idleController_def castSpell_def spendMana_def
        createProjectile_def waterBallCharged_def vnormalize_def vlength_def vscale_def
        vadd_def vx_def vy_def vz_def Let_def)
qed

text \<open>
  The interpolation is rounded at every step. Held for 0.4000000000000001 s the spell
  costs 8 and deals 22, where the ceiling of the exact value would be 9 and 23: the
  product \<open>15 * 0.20000000000000004\<close> and the sum with 5 are each rounded, and the sum
  rounds to 8.
\<close>

lemma partial_charge_rounding:
  "spellTocast heldJustOver400 (Some waterBallCharged) =
     Inr (waterBallCharged\<lparr>manaCost := 8,
       projectileSize := 3242591731706757 / 9007199254740992, damage := 22\<rparr>) \<and>
   \<lceil>manaCost waterBallQuick +
     (manaCost waterBallCharged - manaCost waterBallQuick) *
     (heldJustOver400 / castTime waterBallCharged)\<rceil> = 9 \<and>
   \<lceil>damage waterBallQuick +
     (damage waterBallCharged - damage waterBallQuick) *
     (heldJustOver400 / castTime waterBallCharged)\<rceil> = 23"
proof -
  have branch: "\<not> heldJustOver400 < 0.2" "\<not> heldJustOver400 \<ge> castTime waterBallCharged"
    by (simp_all add: heldJustOver400_def waterBallCharged_def)
  have cost: "Math_ceil (dadd (manaCost waterBallQuick)
      (dmul (dsub (manaCost waterBallCharged) (manaCost waterBallQuick))
         (ddiv heldJustOver400 (castTime waterBallCharged)))) = 8"
    by (simp add: waterBallQuick_def waterBallCharged_def heldJustOver400_def tier_differences
        held400_ratio held400_cost_product held400_cost_sum Math_ceil_def)
  have dmg: "Math_ceil (dadd (damage waterBallQuick)
      (dmul (dsub (damage waterBallCharged) (damage waterBallQuick))
         (ddiv heldJustOver400 (castTime waterBallCharged)))) = 22"
    by (simp add: waterBallQuick_def waterBallCharged_def heldJustOver400_def tier_differences
        held400_ratio held400_damage_product held400_damage_sum Math_ceil_def)
  have size: "dadd (projectileSize waterBallQuick)
      (dmul (dsub (projectileSize waterBallCharged) (projectileSize waterBallQuick))
         (ddiv heldJustOver400 (castTime waterBallCharged))) =
      3242591731706757 / 9007199254740992"
    by (simp add: waterBallQuick_def waterBallCharged_def heldJustOver400_def double_literals
        size_difference held400_ratio held400_size_product held400_size_sum)
  have code: "spellTocast heldJustOver400 (Some waterBallCharged) =
     Inr (waterBallCharged\<lparr>manaCost := 8,
       projectileSize := 3242591731706757 / 9007199254740992, damage := 22\<rparr>)"
    using branch by (simp add: spellTocast_def Let_def cost dmg size)
  have exact: "\<lceil>manaCost waterBallQuick +
     (manaCost waterBallCharged - manaCost waterBallQuick) *
     (heldJustOver400 / castTime waterBallCharged)\<rceil> = 9 \<and>
   \<lceil>damage waterBallQuick +
     (damage waterBallCharged - damage waterBallQuick) *
     (heldJustOver400 / castTime waterBallCharged)\<rceil> = 23"
    by (simp add: waterBallQuick_def waterBallCharged_def heldJustOver400_def)
  show ?thesis using code exact by simp
qed

text \<open>A release after 0.6 s resolves to a spell of cost 10, damage 26 and size 0.39.\<close>

lemma release_after_600:
  "spellTocast 0.6 (Some waterBallCharged) = Inr costTenSpell"
proof -
  have branch: "\<not> (0.6::real) < 0.2" "\<not> (0.6::real) \<ge> castTime waterBallCharged"
    by (simp_all add: waterBallCharged_def)
  have cost: "Math_ceil (dadd (manaCost waterBallQuick)
      (dmul (dsub (manaCost waterBallCharged) (manaCost waterBallQuick))
         (ddiv (3 / 5) (castTime waterBallCharged)))) = 10"
    by (simp add: waterBallQuick_def waterBallCharged_def tier_differences
        held600_ratio held600_cost_product sums_of_halves Math_ceil_def)
  have dmg: "Math_ceil (dadd (damage waterBallQuick)
      (dmul (dsub (damage waterBallCharged) (damage waterBallQuick))
         (ddiv (3 / 5) (castTime waterBallCharged)))) = 26"
    by (simp add: waterBallQuick_def waterBallCharged_def tier_differences
        held600_ratio held600_damage_product sums_of_halves2 Math_ceil_def)
  have size: "dadd (projectileSize waterBallQuick)
      (dmul (dsub (projectileSize waterBallCharged) (projectileSize waterBallQuick))
         (ddiv (3 / 5) (castTime waterBallCharged))) =
      3512807709348987 / 9007199254740992"
    by (simp add: waterBallQuick_def waterBallCharged_def double_literals
        size_difference held600_ratio held600_size_product held600_size_sum)
  show ?thesis
    using branch by (simp add: spellTocast_def Let_def cost dmg size costTenSpell_def)
qed

text \<open>
  Claim C1, as stated, on \<open>SimpleMagicController\<close>, whose charged tier has
  \<open>castTime = 1.5\<close>: a press at 0 ms and a release at 750 ms spend 25 mana and spawn a
  projectile of damage 60, the charged tier itself, where the claim has a spell of
  cost \<open>ceil(10 + (25 - 10) * 0.5) = 18\<close>.
\<close>

theorem C1_release_counterexample:
  "mana (stats (player (Simple_finishCasting 750 (0, 1, 0) (0, 0, 1)
      (Simple_startCasting 0 idleSimpleController)))) = 75 \<and>
   projectileDamage (last (SimpleMagicController.activeProjectiles
      (Simple_finishCasting 750 (0, 1, 0) (0, 0, 1)
        (Simple_startCasting 0 idleSimpleController)))) = 60 \<and>
   castTime Simple_waterBallCharged = 1.5 \<and>
   \<lceil>manaCost Simple_waterBallQuick +
      (manaCost Simple_waterBallCharged - manaCost Simple_waterBallQuick) * 0.5\<rceil> = 18"
  by (simp add: Simple_finishCasting_def Simple_startCasting_def idleSimpleController_def
      Simple_spell_def Simple_castSpell_def Player_spendMana_def PlayerStats_spendMana_def
      recordSpellCast_def Simple_createProjectile_def Simple_waterBallCharged_def
      Simple_waterBallQuick_def held_time_is_double_examples double_literals Let_def)

text \<open>
  Claim C1, amended. In \<open>MagicController\<close>, for a release after \<open>h\<close> seconds in a
  session whose current spell has the full charge time \<open>castTime cs\<close> (the charged
  tier, 2 s): below 0.2 s the spell is the quick tier; from the full charge time on it
  is the charged tier; in between, \<open>manaCost\<close> and \<open>damage\<close> are \<open>Math.ceil\<close> of the
  linear interpolation at \<open>h / castTime cs\<close> and \<open>projectileSize\<close> is the interpolation
  itself, each computed in doubles as written. \<open>SimpleMagicController\<close> does not
  interpolate: below the literal 0.3 it casts its quick tier, otherwise its charged
  tier.
\<close>

theorem C1_charge_tiers:
  "(h < 0.2 \<longrightarrow> spellTocast h cur = Inr waterBallQuick) \<and>
   (0.2 \<le> h \<and> castTime cs \<le> h \<longrightarrow> spellTocast h (Some cs) = Inr waterBallCharged) \<and>
   (0.2 \<le> h \<and> h < castTime cs \<longrightarrow>
      (\<exists>sp. spellTocast h (Some cs) = Inr sp \<and>
         manaCost sp = Math_ceil (dadd (manaCost waterBallQuick)
           (dmul (dsub (manaCost waterBallCharged) (manaCost waterBallQuick))
              (ddiv h (castTime cs)))) \<and>
         damage sp = Math_ceil (dadd (damage waterBallQuick)
           (dmul (dsub (damage waterBallCharged) (damage waterBallQuick))
              (ddiv h (castTime cs)))) \<and>
         projectileSize sp = dadd (projectileSize waterBallQuick)
           (dmul (dsub (projectileSize waterBallCharged) (projectileSize waterBallQuick))
              (ddiv h (castTime cs))))) \<and>
   castTime waterBallCharged = 2 \<and>
   Simple_spell h = (if h < double 0.3 then Simple_waterBallQuick else Simple_waterBallCharged)"
proof -
  have ct: "castTime waterBallCharged = 2" by (simp add: waterBallCharged_def)
  have quick: "h < 0.2 \<longrightarrow> spellTocast h cur = Inr waterBallQuick"
    by (simp add: spellTocast_def)
  have full: "0.2 \<le> h \<and> castTime cs \<le> h \<longrightarrow> spellTocast h (Some cs) = Inr waterBallCharged"
    by (simp add: spellTocast_def)
  have part: "0.2 \<le> h \<and> h < castTime cs \<longrightarrow>
      (\<exists>sp. spellTocast h (Some cs) = Inr sp \<and>
         manaCost sp = Math_ceil (dadd (manaCost waterBallQuick)
           (dmul (dsub (manaCost waterBallCharged) (manaCost waterBallQuick))
              (ddiv h (castTime cs)))) \<and>
         damage sp = Math_ceil (dadd (damage waterBallQuick)
           (dmul (dsub (damage waterBallCharged) (damage waterBallQuick))
              (ddiv h (castTime cs)))) \<and>
         projectileSize sp = dadd (projectileSize waterBallQuick)
           (dmul (dsub (projectileSize waterBallCharged) (projectileSize waterBallQuick))
              (ddiv h (castTime cs))))"
    by (simp add: spellTocast_def Let_def)
  show ?thesis using ct quick full part by (simp add: Simple_spell_def)
qed

text \<open>
  With a full charge time of 1.5 s: the quick tier at 0.1 s, the charged tier at 1.5 s,
  and at 0.75 s a cost of \<open>ceil(5 + (20 - 5) * 0.5) = 13\<close>. With the 2 s of the source:
  the charged tier at 2 s and the cost 13 at 1 s.
\<close>

theorem C1_charge_tiers_witness:
  "spellTocast 0.1 (Some chargedIn1500) = Inr waterBallQuick \<and>
   spellTocast 1.5 (Some chargedIn1500) = Inr waterBallCharged \<and>
   (\<exists>sp. spellTocast 0.75 (Some chargedIn1500) = Inr sp \<and> manaCost sp = 13 \<and> damage sp = 33) \<and>
   spellTocast 2 (Some waterBallCharged) = Inr waterBallCharged \<and>
   (\<exists>sp. spellTocast 1 (Some waterBallCharged) = Inr sp \<and> manaCost sp = 13 \<and> damage sp = 33)"
proof -
  have ct: "castTime chargedIn1500 = 3 / 2" "castTime waterBallCharged = 2"
    by (simp_all add: chargedIn1500_def waterBallCharged_def)
  have q: "manaCost waterBallQuick = 5" "manaCost waterBallCharged = 20"
    "damage waterBallQuick = 15" "damage waterBallCharged = 50"
    by (simp_all add: waterBallQuick_def waterBallCharged_def)
  have ratio: "ddiv (3 / 4) (3 / 2) = 1 / 2" "ddiv 1 2 = 1 / 2"
    by (simp_all add: ddiv_def double_halves)
  have a: "spellTocast 0.1 (Some chargedIn1500) = Inr waterBallQuick"
    using C1_charge_tiers [where h = "0.1" and cur = "Some chargedIn1500"] by simp
  have b: "spellTocast 1.5 (Some chargedIn1500) = Inr waterBallCharged"
    using C1_charge_tiers [where h = "1.5" and cs = chargedIn1500] ct by simp
  obtain sp where c: "spellTocast 0.75 (Some chargedIn1500) = Inr sp"
    "manaCost sp = Math_ceil (dadd (manaCost waterBallQuick)
       (dmul (dsub (manaCost waterBallCharged) (manaCost waterBallQuick))
          (ddiv 0.75 (castTime chargedIn1500))))"
    "damage sp = Math_ceil (dadd (damage waterBallQuick)
       (dmul (dsub (damage waterBallCharged) (damage waterBallQuick))
          (ddiv 0.75 (castTime chargedIn1500))))"
    using C1_charge_tiers [where h = "0.75" and cs = chargedIn1500] ct by auto
  have c': "manaCost sp = 13 \<and> damage sp = 33"
    using c(2,3) partial_charge_half by (simp add: ct q ratio)
  have d: "spellTocast 2 (Some waterBallCharged) = Inr waterBallCharged"
    using C1_charge_tiers [where h = 2 and cs = waterBallCharged] ct by simp
  obtain sp' where e: "spellTocast 1 (Some waterBallCharged) = Inr sp'"
    "manaCost sp' = Math_ceil (dadd (manaCost waterBallQuick)
       (dmul (dsub (manaCost waterBallCharged) (manaCost waterBallQuick))
          (ddiv 1 (castTime waterBallCharged))))"
    "damage sp' = Math_ceil (dadd (damage waterBallQuick)
       (dmul (dsub (damage waterBallCharged) (damage waterBallQuick))
          (ddiv 1 (castTime waterBallCharged))))"
    using C1_charge_tiers [where h = 1 and cs = waterBallCharged] ct by auto
  have e': "manaCost sp' = 13 \<and> damage sp' = 33"
    using e(2,3) partial_charge_half by (simp add: ct q ratio)
  show ?thesis using a b c(1) c' d e(1) e' by blast
qed

text \<open>
  Claim C6. For a release between the quick threshold and the charged tier's
  \<open>castTime\<close>, the partially charged spell has the projectile speed, the colour, the
  cast time (and the name) of the charged tier. They are not interpolated: the speed
  and the cast time differ from the value a linear interpolation would give.
\<close>

theorem C6_charged_fields_inherited:
  "0.2 \<le> h \<and> h < castTime waterBallCharged \<longrightarrow>
     (\<exists>sp. spellTocast h (Some waterBallCharged) = Inr sp \<and>
        projectileSpeed sp = projectileSpeed waterBallCharged \<and>
        color sp = color waterBallCharged \<and>
        castTime sp = castTime waterBallCharged \<and>
        name sp = name waterBallCharged \<and>
        projectileSpeed sp \<noteq> projectileSpeed waterBallQuick +
          (projectileSpeed waterBallCharged - projectileSpeed waterBallQuick) *
          (h / castTime waterBallCharged) \<and>
        castTime sp \<noteq> castTime waterBallQuick +
          (castTime waterBallCharged - castTime waterBallQuick) *
          (h / castTime waterBallCharged))"
proof (intro impI)
  assume h: "0.2 \<le> h \<and> h < castTime waterBallCharged"
  have ct: "castTime waterBallCharged = 2" by (simp add: waterBallCharged_def)
  from h ct have lt: "h < 2" by simp
  let ?sp = "waterBallCharged\<lparr>
      manaCost := Math_ceil (dadd (manaCost waterBallQuick)
        (dmul (dsub (manaCost waterBallCharged) (manaCost waterBallQuick))
           (ddiv h (castTime waterBallCharged)))),
      projectileSize := dadd (projectileSize waterBallQuick)
        (dmul (dsub (projectileSize waterBallCharged) (projectileSize waterBallQuick))
           (ddiv h (castTime waterBallCharged))),
      damage := Math_ceil (dadd (damage waterBallQuick)
        (dmul (dsub (damage waterBallCharged) (damage waterBallQuick))
           (ddiv h (castTime waterBallCharged))))\<rparr>"
  have res: "spellTocast h (Some waterBallCharged) = Inr ?sp"
    using h by (simp add: spellTocast_def Let_def)
  have speed: "projectileSpeed ?sp \<noteq> projectileSpeed waterBallQuick +
          (projectileSpeed waterBallCharged - projectileSpeed waterBallQuick) *
          (h / castTime waterBallCharged)"
    using lt by (simp add: waterBallCharged_def waterBallQuick_def)
  have ctime: "castTime ?sp \<noteq> castTime waterBallQuick +
          (castTime waterBallCharged - castTime waterBallQuick) *
          (h / castTime waterBallCharged)"
    using lt by (simp add: waterBallCharged_def waterBallQuick_def)
  show "\<exists>sp. spellTocast h (Some waterBallCharged) = Inr sp \<and>
        projectileSpeed sp = projectileSpeed waterBallCharged \<and>
        color sp = color waterBallCharged \<and>
        castTime sp = castTime waterBallCharged \<and>
        name sp = name waterBallCharged \<and>
        projectileSpeed sp \<noteq> projectileSpeed waterBallQuick +
          (projectileSpeed waterBallCharged - projectileSpeed waterBallQuick) *
          (h / castTime waterBallCharged) \<and>
        castTime sp \<noteq> castTime waterBallQuick +
          (castTime waterBallCharged - castTime waterBallQuick) *
          (h / castTime waterBallCharged)"
    using res speed ctime by (intro exI [of _ ?sp]) simp
qed

text \<open>A release after 1 s: speed 15 (the quick tier has 25), the charged colour, cast time 2.\<close>

theorem C6_charged_fields_inherited_witness:
  "\<exists>sp. spellTocast 1 (Some waterBallCharged) = Inr sp \<and>
     projectileSpeed sp = 15 \<and> color sp = (0.1, 0.4, 0.9) \<and> castTime sp = 2 \<and>
     projectileSpeed waterBallQuick = 25"
proof -
  have "(0.2::real) \<le> 1 \<and> 1 < castTime waterBallCharged"
    by (simp add: waterBallCharged_def)
  with C6_charged_fields_inherited [of 1] obtain sp where
    "spellTocast 1 (Some waterBallCharged) = Inr sp"
    "projectileSpeed sp = projectileSpeed waterBallCharged"
    "color sp = color waterBallCharged" "castTime sp = castTime waterBallCharged"
    by blast
  then show ?thesis
    by (intro exI [of _ sp]) (simp add: waterBallCharged_def waterBallQuick_def)
qed

text \<open>
  Claim C7. \<open>startCasting\<close> while a session is charging changes nothing, so two calls in
  a row leave the state of the first call, its start time included. The same holds in
  \<open>SimpleMagicController\<close>.
\<close>

theorem C7_start_cast_idempotent:
  "(MagicController.isCasting mc \<longrightarrow> startCasting t mc = mc) \<and>
   startCasting t2 (startCasting t1 mc) = startCasting t1 mc \<and>
   (SimpleMagicController.isCasting smc \<longrightarrow> Simple_startCasting t smc = smc) \<and>
   Simple_startCasting t2 (Simple_startCasting t1 smc) = Simple_startCasting t1 smc"
  by (simp add: startCasting_def Simple_startCasting_def)

text \<open>A press at 1000 ms and a second one at 1500 ms: the start time stays 1000.\<close>

theorem C7_start_cast_idempotent_witness:
  "MagicController.isCasting (startCasting 1000 idleController) \<and>
   startCasting 1500 (startCasting 1000 idleController) = startCasting 1000 idleController \<and>
   MagicController.castStartTime (startCasting 1500 (startCasting 1000 idleController)) = 1000"
  using C7_start_cast_idempotent [of "startCasting 1000 idleController" 1500]
  by (simp add: startCasting_def idleController_def)

section \<open>The mana pool\<close>

text \<open>
  Claim C2. Spending more than the current mana returns false and leaves the pool as
  it is, in \<open>PlayerController\<close>, in \<open>PlayerStats\<close> and in \<open>Player\<close>; the cast that
  asked for it leaves the whole controller as it is, so no projectile is added and the
  counter of spells does not move.
\<close>

theorem C2_insufficient_mana:
  "(amount > currentMana pc \<longrightarrow> spendMana amount pc = (False, pc)) \<and>
   (amount > mana st \<longrightarrow> PlayerStats_spendMana amount st = (False, st)) \<and>
   (amount > mana (stats pl) \<longrightarrow> Player_spendMana amount pl = (False, pl)) \<and>
   (manaCost spell > currentMana (playerController mc) \<longrightarrow>
      castSpell staffTip staffDir spell mc = mc) \<and>
   (manaCost spell > mana (stats (player smc)) \<longrightarrow>
      Simple_castSpell playerPos cameraDir spell smc = smc)"
  by (simp add: spendMana_def PlayerStats_spendMana_def Player_spendMana_def castSpell_def
      Simple_castSpell_def)

text \<open>
  Mana 4 and a release after 0.6 s, which resolves to a spell of cost 10: the mana stays
  4, no projectile, no spell counted.
\<close>

theorem C2_insufficient_mana_witness:
  "spellTocast 0.6 (currentSpell lowManaController) = Inr costTenSpell \<and>
   manaCost costTenSpell = 10 \<and>
   currentMana (playerController lowManaController) = 4 \<and>
   spendMana 10 (playerController lowManaController) = (False, playerController lowManaController) \<and>
   castSpell (0, 1, 0) (0, 0, 1) costTenSpell lowManaController = lowManaController \<and>
   MagicController.activeProjectiles (castSpell (0, 1, 0) (0, 0, 1) costTenSpell lowManaController) = [] \<and>
   MagicController.spellsCast (castSpell (0, 1, 0) (0, 0, 1) costTenSpell lowManaController) = 0"
  using C2_insufficient_mana [where amount = 10 and pc = "playerController lowManaController"
      and spell = costTenSpell and mc = lowManaController and staffTip = "(0, 1, 0)"
      and staffDir = "(0, 0, 1)"] release_after_600
  by (simp add: lowManaController_def costTenSpell_def)

text \<open>
  Claim C3, as stated, on \<open>PlayerController\<close> of \<open>main.ts\<close>: while jumping the mana
  grows at the base rate (10 in one second, as when walking), which is more than the 7
  it grows while running. Only running lowers the rate there.
\<close>

theorem C3_counterexample:
  "currentMana (regenerateMana 1 airborneCaster) = 10 \<and>
   currentMana (regenerateMana 1 (airborneCaster\<lparr>PlayerController.currentState := RUNNING\<rparr>)) = 7 \<and>
   currentMana (regenerateMana 1 (airborneCaster\<lparr>PlayerController.currentState := WALKING\<rparr>)) = 10"
  by (simp add: regenerateMana_def airborneCaster_def)

lemma updateManaRegen_mana:
  "mana (updateManaRegen deltaTime movementState st) =
     (if mana st \<ge> PlayerStats.maxMana st then mana st
      else min (PlayerStats.maxMana st)
             (mana st + manaRate (regenConfig st) movementState * deltaTime))"
  by (simp add: updateManaRegen_def Let_def)

lemma updateManaRegen_maxMana:
  "PlayerStats.maxMana (updateManaRegen deltaTime movementState st) = PlayerStats.maxMana st"
  by (simp add: updateManaRegen_def Let_def)

lemma regenSteps_bounded:
  "mana st \<le> PlayerStats.maxMana st \<Longrightarrow>
     mana (regenSteps steps st) \<le> PlayerStats.maxMana (regenSteps steps st)"
proof (induction steps arbitrary: st)
  case Nil
  then show ?case by simp
next
  case (Cons step steps)
  obtain dt ms where step: "step = (dt, ms)" by (cases step)
  have "mana (updateManaRegen dt ms st) \<le> PlayerStats.maxMana (updateManaRegen dt ms st)"
    using Cons.prems by (simp add: updateManaRegen_mana updateManaRegen_maxMana)
  then show ?case using Cons.IH step by simp
qed

lemma regenerateSteps_bounded:
  "currentMana pc \<le> PlayerController.maxMana pc \<Longrightarrow>
     currentMana (regenerateSteps steps pc) \<le> PlayerController.maxMana (regenerateSteps steps pc)"
proof (induction steps arbitrary: pc)
  case Nil
  then show ?case by simp
next
  case (Cons step steps)
  obtain dt ms where step: "step = (dt, ms)" by (cases step)
  let ?pc = "regenerateMana dt (pc\<lparr>PlayerController.currentState := ms\<rparr>)"
  have "currentMana ?pc \<le> PlayerController.maxMana ?pc"
    using Cons.prems by (simp add: regenerateMana_def Let_def)
  then show ?case using Cons.IH step by simp
qed

text \<open>
  Claim C3, amended. With a frame time and a rate that are not negative and a pool that
  is not above its maximum, \<open>PlayerStats\<close> sets the mana to
  \<open>min(max, current + rate * deltaTime)\<close>, where the rate is the base rate times the
  running multiplier while running (0.7 by default) and times 0.5 while jumping or
  falling; \<open>PlayerController\<close> does the same with the base rate times 0.7 while running
  and the base rate itself in every other state, airborne included. In both, a pool
  that starts at or below its maximum stays there over any run of regeneration steps,
  whatever the frame times.
\<close>

theorem C3_mana_regeneration:
  "(0 \<le> deltaTime \<and> 0 \<le> manaRate (regenConfig st) movementState \<and>
    mana st \<le> PlayerStats.maxMana st \<longrightarrow>
      mana (updateManaRegen deltaTime movementState st) =
        min (PlayerStats.maxMana st)
          (mana st + manaRate (regenConfig st) movementState * deltaTime)) \<and>
   manaRate cfg RUNNING = RegenConfig.manaRegenRate cfg * runningMultiplier cfg \<and>
   manaRate cfg JUMPING = RegenConfig.manaRegenRate cfg * 0.5 \<and>
   manaRate cfg FALLING = RegenConfig.manaRegenRate cfg * 0.5 \<and>
   runningMultiplier defaultRegenConfig = 0.7 \<and>
   (0 \<le> deltaTime \<and> 0 \<le> PlayerController.manaRegenRate pc \<and>
    currentMana pc \<le> PlayerController.maxMana pc \<longrightarrow>
      currentMana (regenerateMana deltaTime pc) =
        min (PlayerController.maxMana pc)
          (currentMana pc +
            (if PlayerController.currentState pc = RUNNING
             then PlayerController.manaRegenRate pc * 0.7
             else PlayerController.manaRegenRate pc) * deltaTime)) \<and>
   (mana st \<le> PlayerStats.maxMana st \<longrightarrow>
      mana (regenSteps steps st) \<le> PlayerStats.maxMana (regenSteps steps st)) \<and>
   (currentMana pc \<le> PlayerController.maxMana pc \<longrightarrow>
      currentMana (regenerateSteps steps pc) \<le> PlayerController.maxMana (regenerateSteps steps pc))"
proof -
  have stats: "0 \<le> deltaTime \<and> 0 \<le> manaRate (regenConfig st) movementState \<and>
    mana st \<le> PlayerStats.maxMana st \<longrightarrow>
      mana (updateManaRegen deltaTime movementState st) =
        min (PlayerStats.maxMana st)
          (mana st + manaRate (regenConfig st) movementState * deltaTime)"
    by (auto simp add: updateManaRegen_mana min_def)
  have ctrl: "0 \<le> deltaTime \<and> 0 \<le> PlayerController.manaRegenRate pc \<and>
    currentMana pc \<le> PlayerController.maxMana pc \<longrightarrow>
      currentMana (regenerateMana deltaTime pc) =
        min (PlayerController.maxMana pc)
          (currentMana pc +
            (if PlayerController.currentState pc = RUNNING
             then PlayerController.manaRegenRate pc * 0.7
             else PlayerController.manaRegenRate pc) * deltaTime)"
    by (auto simp add: regenerateMana_def Let_def min_def)
  have rates: "manaRate cfg RUNNING = RegenConfig.manaRegenRate cfg * runningMultiplier cfg \<and>
   manaRate cfg JUMPING = RegenConfig.manaRegenRate cfg * 0.5 \<and>
   manaRate cfg FALLING = RegenConfig.manaRegenRate cfg * 0.5 \<and>
   runningMultiplier defaultRegenConfig = 0.7"
    by (simp add: manaRate_def defaultRegenConfig_def)
  show ?thesis
    using stats ctrl rates regenSteps_bounded [of st steps] regenerateSteps_bounded [of pc steps]
    by blast
qed

text \<open>
  Mana 95 of 100: half a second of running gives 98.5; long frames stop at 100.
\<close>

theorem C3_mana_regeneration_witness:
  "mana (updateManaRegen 0.5 RUNNING drainedStats) = 98.5 \<and>
   mana (regenSteps [(0.5, RUNNING), (1000, IDLE)] drainedStats) \<le> 100 \<and>
   currentMana (regenerateMana 0.5 (airborneCaster\<lparr>currentMana := 98\<rparr>)) = 100 \<and>
   currentMana (regenerateSteps [(0.5, RUNNING), (1000, IDLE)] airborneCaster) \<le> 100"
proof -
  note inst = C3_mana_regeneration [where st = drainedStats and deltaTime = "0.5"
      and movementState = RUNNING and pc = "airborneCaster\<lparr>currentMana := 98\<rparr>"
      and cfg = defaultRegenConfig and steps = "[(0.5, RUNNING), (1000, IDLE)]"]
  have pre: "(0::real) \<le> 0.5 \<and> 0 \<le> manaRate (regenConfig drainedStats) RUNNING \<and>
     mana drainedStats \<le> PlayerStats.maxMana drainedStats \<and>
     0 \<le> PlayerController.manaRegenRate (airborneCaster\<lparr>currentMana := 98\<rparr>) \<and>
     currentMana (airborneCaster\<lparr>currentMana := 98\<rparr>) \<le>
       PlayerController.maxMana (airborneCaster\<lparr>currentMana := 98\<rparr>)"
    by (simp add: drainedStats_def airborneCaster_def manaRate_def defaultRegenConfig_def)
  have a: "mana (updateManaRegen 0.5 RUNNING drainedStats) =
      min (PlayerStats.maxMana drainedStats)
        (mana drainedStats + manaRate (regenConfig drainedStats) RUNNING * 0.5)"
    using inst pre by blast
  have b: "mana (regenSteps [(0.5, RUNNING), (1000, IDLE)] drainedStats) \<le>
      PlayerStats.maxMana (regenSteps [(0.5, RUNNING), (1000, IDLE)] drainedStats)"
    using inst pre by blast
  have c: "currentMana (regenerateMana 0.5 (airborneCaster\<lparr>currentMana := 98\<rparr>)) =
      min (PlayerController.maxMana (airborneCaster\<lparr>currentMana := 98\<rparr>))
        (currentMana (airborneCaster\<lparr>currentMana := 98\<rparr>) +
          (if PlayerController.currentState (airborneCaster\<lparr>currentMana := 98\<rparr>) = RUNNING
           then PlayerController.manaRegenRate (airborneCaster\<lparr>currentMana := 98\<rparr>) * 0.7
           else PlayerController.manaRegenRate (airborneCaster\<lparr>currentMana := 98\<rparr>)) * 0.5)"
    using inst pre by blast
  have d: "currentMana (regenerateSteps [(0.5, RUNNING), (1000, IDLE)] airborneCaster) \<le> 100"
    by (simp add: airborneCaster_def regenerateMana_def Let_def)
  have a': "mana (updateManaRegen 0.5 RUNNING drainedStats) = 98.5"
    using a by (simp add: drainedStats_def manaRate_def defaultRegenConfig_def)
  have b': "mana (regenSteps [(0.5, RUNNING), (1000, IDLE)] drainedStats) \<le> 100"
    using b by (simp add: updateManaRegen_maxMana drainedStats_def)
  have c': "currentMana (regenerateMana 0.5 (airborneCaster\<lparr>currentMana := 98\<rparr>)) = 100"
    using c by (simp add: airborneCaster_def)
  show ?thesis using a' b' c' d by simp
qed

section \<open>Projectiles\<close>

text \<open>
  The reverse iteration with \<open>splice\<close> treats every projectile on its own: the list after
  a frame holds, in order, the projectiles that their tick keeps.
\<close>

lemma map_filter_snoc:
  "List.map_filter f (xs @ [x]) =
     List.map_filter f xs @ (case f x of None \<Rightarrow> [] | Some y \<Rightarrow> [y])"
  by (induction xs) (simp_all split: option.splits)

lemma removeProjectile_middle: "removeProjectile (length xs) (xs @ x # ys) = xs @ ys"
  by (simp add: removeProjectile_def)

lemma updateLoop_prefix:
  "updateLoop dt targets (length xs) (xs @ ys) = List.map_filter (projectileTick dt targets) xs @ ys"
proof (induction xs arbitrary: ys rule: rev_induct)
  case Nil
  show ?case by simp
next
  case (snoc x xs)
  show ?case
  proof (cases "projectileTick dt targets x")
    case None
    then show ?thesis
      using snoc.IH [of ys] by (simp add: map_filter_snoc removeProjectile_middle)
  next
    case (Some q)
    then show ?thesis
      using snoc.IH [of "q # ys"] by (simp add: map_filter_snoc)
  qed
qed

lemma updateLoop_map_filter:
  "updateLoop dt targets (length ps) ps = List.map_filter (projectileTick dt targets) ps"
  using updateLoop_prefix [of dt targets ps "[]"] by simp

lemma updateProjectilesLoop_prefix:
  "updateProjectilesLoop dt targets (length xs) (xs @ ys) =
     List.map_filter (Simple_projectileTick dt targets) xs @ ys"
proof (induction xs arbitrary: ys rule: rev_induct)
  case Nil
  show ?case by simp
next
  case (snoc x xs)
  show ?case
  proof (cases "Simple_projectileTick dt targets x")
    case None
    then show ?thesis
      using snoc.IH [of ys] by (simp add: map_filter_snoc removeProjectile_middle)
  next
    case (Some q)
    then show ?thesis
      using snoc.IH [of "q # ys"] by (simp add: map_filter_snoc)
  qed
qed

lemma updateProjectilesLoop_map_filter:
  "updateProjectilesLoop dt targets (length ps) ps =
     List.map_filter (Simple_projectileTick dt targets) ps"
  using updateProjectilesLoop_prefix [of dt targets ps "[]"] by simp

lemma update_activeProjectiles:
  "MagicController.activeProjectiles (update now deltaTime mc) =
     List.map_filter (projectileTick deltaTime (MagicController.targetMeshes mc))
       (MagicController.activeProjectiles mc)"
  by (simp add: update_def Let_def updateLoop_map_filter split: option.splits)

lemma updateProjectiles_activeProjectiles:
  "SimpleMagicController.activeProjectiles (updateProjectiles deltaTime smc) =
     List.map_filter (Simple_projectileTick deltaTime (SimpleMagicController.targetMeshes smc))
       (SimpleMagicController.activeProjectiles smc)"
  by (simp add: updateProjectiles_def updateProjectilesLoop_map_filter)

text \<open>Ageing: the lifetime after some ticks is the sum of the frame times.\<close>

lemma moveProjectile_lifetime:
  "lifetime (moveProjectile dt p) = lifetime p + dt"
  "maxLifetime (moveProjectile dt p) = maxLifetime p"
  by (simp_all add: moveProjectile_def Let_def)

lemma flown_lifetime:
  "lifetime (flown dts p) = lifetime p + sum_list dts"
  by (induction dts arbitrary: p) (simp_all add: moveProjectile_lifetime)

lemma flown_maxLifetime: "maxLifetime (flown dts p) = maxLifetime p"
  by (induction dts arbitrary: p) (simp_all add: moveProjectile_lifetime)

text \<open>
  Without collisions, \<open>SimpleMagicController\<close> removes a projectile at the first tick
  whose lifetime has reached \<open>maxLifetime\<close>.
\<close>

lemma Simple_removedAt_iff:
  "(\<forall>k<length dts. \<not> Simple_checkProjectileCollisions targets (flown (take (Suc k) dts) p)) \<Longrightarrow>
   Simple_removedAt targets dts p = Some k \<longleftrightarrow>
     k < length dts \<and>
     lifetime (flown (take (Suc k) dts) p) \<ge> maxLifetime p \<and>
     (\<forall>j<k. lifetime (flown (take (Suc j) dts) p) < maxLifetime p)"
proof (induction dts arbitrary: p k)
  case Nil
  show ?case by simp
next
  case (Cons dt dts)
  let ?q = "moveProjectile dt p"
  have nc0: "\<not> Simple_checkProjectileCollisions targets ?q"
    using Cons.prems by fastforce
  have ncs: "\<forall>k<length dts. \<not> Simple_checkProjectileCollisions targets (flown (take (Suc k) dts) ?q)"
    using Cons.prems by fastforce
  show ?case
  proof (cases "lifetime ?q \<ge> maxLifetime ?q")
    case True
    then have tick: "Simple_projectileTick dt targets p = None"
      using nc0 by (simp add: Simple_projectileTick_def Let_def)
    show ?thesis
    proof (cases k)
      case 0
      with tick True show ?thesis by (simp add: moveProjectile_lifetime)
    next
      case (Suc k')
      have "\<not> (\<forall>j<k. lifetime (flown (take (Suc j) (dt # dts)) p) < maxLifetime p)"
        using True Suc by (auto simp add: moveProjectile_lifetime intro!: exI [of _ 0])
      with tick Suc show ?thesis by simp
    qed
  next
    case False
    then have tick: "Simple_projectileTick dt targets p = Some ?q"
      using nc0 by (simp add: Simple_projectileTick_def Let_def)
    show ?thesis
    proof (cases k)
      case 0
      with tick False show ?thesis by (simp add: moveProjectile_lifetime)
    next
      case (Suc k')
      have ih: "Simple_removedAt targets dts ?q = Some k' \<longleftrightarrow>
         k' < length dts \<and>
         lifetime (flown (take (Suc k') dts) ?q) \<ge> maxLifetime ?q \<and>
         (\<forall>j<k'. lifetime (flown (take (Suc j) dts) ?q) < maxLifetime ?q)"
        using Cons.IH [OF ncs] .
      have all: "(\<forall>j<Suc k'. lifetime (flown (take (Suc j) (dt # dts)) p) < maxLifetime p) \<longleftrightarrow>
         (\<forall>j<k'. lifetime (flown (take (Suc j) dts) ?q) < maxLifetime ?q)"
        using False by (simp add: All_less_Suc2 moveProjectile_lifetime)
      show ?thesis
        using tick Suc ih all by (simp add: moveProjectile_lifetime)
    qed
  qed
qed

text \<open>
  Without collisions, \<open>MagicController\<close> removes a projectile at the first tick whose
  lifetime is above \<open>maxLifetime\<close>.
\<close>

lemma removedAt_iff:
  "(\<forall>k<length dts. \<not> checkProjectileCollisions targets (flown (take (Suc k) dts) p)) \<Longrightarrow>
   removedAt targets dts p = Some k \<longleftrightarrow>
     k < length dts \<and>
     lifetime (flown (take (Suc k) dts) p) > maxLifetime p \<and>
     (\<forall>j<k. lifetime (flown (take (Suc j) dts) p) \<le> maxLifetime p)"
proof (induction dts arbitrary: p k)
  case Nil
  show ?case by simp
next
  case (Cons dt dts)
  let ?q = "moveProjectile dt p"
  have nc0: "\<not> checkProjectileCollisions targets ?q"
    using Cons.prems by fastforce
  have ncs: "\<forall>k<length dts. \<not> checkProjectileCollisions targets (flown (take (Suc k) dts) ?q)"
    using Cons.prems by fastforce
  show ?case
  proof (cases "lifetime ?q > maxLifetime ?q")
    case True
    then have tick: "projectileTick dt targets p = None"
      using nc0 by (simp add: projectileTick_def Let_def)
    show ?thesis
    proof (cases k)
      case 0
      with tick True show ?thesis by (simp add: moveProjectile_lifetime)
    next
      case (Suc k')
      have "\<not> (\<forall>j<k. lifetime (flown (take (Suc j) (dt # dts)) p) \<le> maxLifetime p)"
        using True Suc by (auto simp add: moveProjectile_lifetime intro!: exI [of _ 0])
      with tick Suc show ?thesis by simp
    qed
  next
    case False
    then have tick: "projectileTick dt targets p = Some ?q"
      using nc0 by (simp add: projectileTick_def Let_def)
    show ?thesis
    proof (cases k)
      case 0
      with tick False show ?thesis by (simp add: moveProjectile_lifetime)
    next
      case (Suc k')
      have ih: "removedAt targets dts ?q = Some k' \<longleftrightarrow>
         k' < length dts \<and>
         lifetime (flown (take (Suc k') dts) ?q) > maxLifetime ?q \<and>
         (\<forall>j<k'. lifetime (flown (take (Suc j) dts) ?q) \<le> maxLifetime ?q)"
        using Cons.IH [OF ncs] .
      have all: "(\<forall>j<Suc k'. lifetime (flown (take (Suc j) (dt # dts)) p) \<le> maxLifetime p) \<longleftrightarrow>
         (\<forall>j<k'. lifetime (flown (take (Suc j) dts) ?q) \<le> maxLifetime ?q)"
        using False by (simp add: All_less_Suc2 moveProjectile_lifetime)
      show ?thesis
        using tick Suc ih all by (simp add: moveProjectile_lifetime)
    qed
  qed
qed

text \<open>The projectiles of the sample casts.\<close>

lemma spawnedMain_eq:
  "spawnedMain = \<lparr>mesh = \<lparr>position = (0, 1.5, 0.3), scaling = (1, 1, 1),
       diameter = double 0.3 * 2\<rparr>,
     direction = (0, 0, 1), speed = 25, projectileDamage = 15, lifetime = 0, maxLifetime = 8\<rparr>"
  by (simp add: spawnedMain_def castSpell_def spendMana_def idleController_def
      createProjectile_def waterBallQuick_def vnormalize_def vlength_def vscale_def vadd_def
      vx_def vy_def vz_def Let_def)

lemma spawnedSimple_eq:
  "spawnedSimple = \<lparr>mesh = \<lparr>position = (0, 2.5, 1.5), scaling = (1, 1, 1), diameter = 0.6\<rparr>,
     direction = (0, 0, 1), speed = 15, projectileDamage = 25, lifetime = 0, maxLifetime = 5\<rparr>"
  by (simp add: spawnedSimple_def Simple_castSpell_def Player_spendMana_def
      PlayerStats_spendMana_def recordSpellCast_def idleSimpleController_def
      Simple_createProjectile_def Simple_waterBallQuick_def vnormalize_def vlength_def
      vscale_def vadd_def vx_def vy_def vz_def Let_def)

text \<open>
  Claim C4, as stated, on \<open>MagicController\<close>: a projectile cast there lives 8 s; after
  16 frames of 0.5 s without a collision its lifetime is 8, which has reached
  \<open>maxLifetime\<close>, and it has not been removed at any of these ticks.
\<close>

theorem C4_counterexample:
  "maxLifetime spawnedMain = 8 \<and>
   lifetime (flown [0.5, 0.5, 0.5, 0.5, 0.5, 0.5, 0.5, 0.5, 0.5, 0.5, 0.5, 0.5, 0.5, 0.5, 0.5, 0.5]
     spawnedMain) = 8 \<and>
   removedAt [] [0.5, 0.5, 0.5, 0.5, 0.5, 0.5, 0.5, 0.5, 0.5, 0.5, 0.5, 0.5, 0.5, 0.5, 0.5, 0.5]
     spawnedMain = None"
  by (simp add: spawnedMain_eq projectileTick_def checkProjectileCollisions_def
      moveProjectile_def vscale_def vadd_def vx_def vy_def vz_def Let_def)

text \<open>
  Claim C4, amended. A projectile that registers no collision is removed by
  \<open>SimpleMagicController\<close> (where it is spawned with \<open>maxLifetime = 5\<close>) at the first
  tick at which its accumulated lifetime is at least \<open>maxLifetime\<close>, and by
  \<open>MagicController\<close> (\<open>maxLifetime = 8\<close>) at the first tick at which it is greater than
  \<open>maxLifetime\<close>; in both at no earlier tick. The accumulated lifetime is the sum of
  the frame times.
\<close>

theorem C4_projectile_expiry:
  "((\<forall>k<length dts. \<not> Simple_checkProjectileCollisions targets (flown (take (Suc k) dts) p)) \<longrightarrow>
      (Simple_removedAt targets dts p = Some k \<longleftrightarrow>
         k < length dts \<and>
         lifetime (flown (take (Suc k) dts) p) \<ge> maxLifetime p \<and>
         (\<forall>j<k. lifetime (flown (take (Suc j) dts) p) < maxLifetime p))) \<and>
   ((\<forall>k<length dts. \<not> checkProjectileCollisions targets (flown (take (Suc k) dts) p)) \<longrightarrow>
      (removedAt targets dts p = Some k \<longleftrightarrow>
         k < length dts \<and>
         lifetime (flown (take (Suc k) dts) p) > maxLifetime p \<and>
         (\<forall>j<k. lifetime (flown (take (Suc j) dts) p) \<le> maxLifetime p))) \<and>
   lifetime (flown dts p) = lifetime p + sum_list dts \<and>
   maxLifetime (last (SimpleMagicController.activeProjectiles
     (Simple_createProjectile playerPos cameraDir spell smc))) = 5 \<and>
   maxLifetime (last (MagicController.activeProjectiles
     (createProjectile staffTip staffDir spell mc))) = 8"
proof (intro conjI impI)
  assume "\<forall>k<length dts. \<not> Simple_checkProjectileCollisions targets (flown (take (Suc k) dts) p)"
  then show "Simple_removedAt targets dts p = Some k \<longleftrightarrow>
         k < length dts \<and>
         lifetime (flown (take (Suc k) dts) p) \<ge> maxLifetime p \<and>
         (\<forall>j<k. lifetime (flown (take (Suc j) dts) p) < maxLifetime p)"
    by (rule Simple_removedAt_iff)
next
  assume "\<forall>k<length dts. \<not> checkProjectileCollisions targets (flown (take (Suc k) dts) p)"
  then show "removedAt targets dts p = Some k \<longleftrightarrow>
         k < length dts \<and>
         lifetime (flown (take (Suc k) dts) p) > maxLifetime p \<and>
         (\<forall>j<k. lifetime (flown (take (Suc j) dts) p) \<le> maxLifetime p)"
    by (rule removedAt_iff)
next
  show "lifetime (flown dts p) = lifetime p + sum_list dts"
    by (rule flown_lifetime)
next
  show "maxLifetime (last (SimpleMagicController.activeProjectiles
     (Simple_createProjectile playerPos cameraDir spell smc))) = 5"
    by (simp add: Simple_createProjectile_def Let_def)
next
  show "maxLifetime (last (MagicController.activeProjectiles
     (createProjectile staffTip staffDir spell mc))) = 8"
    by (simp add: createProjectile_def Let_def)
qed

text \<open>
  Frames of 2 s, 2 s and 1 s: the projectile of \<open>SimpleMagicController\<close> is removed at
  the third tick, when its lifetime is 5, and not at the second, when it is 4. Frames
  of 4 s, 4 s and 1 s: the projectile of \<open>MagicController\<close> is removed at the third
  tick, when its lifetime is 9, and not at the second, when it is 8.
\<close>

theorem C4_projectile_expiry_witness:
  "\<not> Simple_checkProjectileCollisions [] (flown [2] spawnedSimple) \<and>
   \<not> Simple_checkProjectileCollisions [] (flown [2, 2] spawnedSimple) \<and>
   \<not> Simple_checkProjectileCollisions [] (flown [2, 2, 1] spawnedSimple) \<and>
   Simple_removedAt [] [2, 2, 1] spawnedSimple = Some 2 \<and>
   lifetime (flown [2, 2, 1] spawnedSimple) = 5 \<and>
   lifetime (flown [2, 2] spawnedSimple) = 4 \<and>
   \<not> checkProjectileCollisions [] (flown [4] spawnedMain) \<and>
   \<not> checkProjectileCollisions [] (flown [4, 4] spawnedMain) \<and>
   \<not> checkProjectileCollisions [] (flown [4, 4, 1] spawnedMain) \<and>
   removedAt [] [4, 4, 1] spawnedMain = Some 2 \<and>
   lifetime (flown [4, 4, 1] spawnedMain) = 9 \<and>
   lifetime (flown [4, 4] spawnedMain) = 8"
proof -
  have nc: "\<forall>k<length [2, 2, 1::real].
      \<not> Simple_checkProjectileCollisions [] (flown (take (Suc k) [2, 2, 1]) spawnedSimple)"
    by (simp add: All_less_Suc spawnedSimple_eq Simple_checkProjectileCollisions_def
        moveProjectile_def vscale_def vadd_def vx_def vy_def vz_def Let_def)
  have rhs: "2 < length [2, 2, 1::real] \<and>
      lifetime (flown (take (Suc 2) [2, 2, 1]) spawnedSimple) \<ge> maxLifetime spawnedSimple \<and>
      (\<forall>j<2. lifetime (flown (take (Suc j) [2, 2, 1]) spawnedSimple) < maxLifetime spawnedSimple)"
    by (simp add: moveProjectile_lifetime All_less_Suc numeral_2_eq_2 spawnedSimple_eq)
  have simple: "Simple_removedAt [] [2, 2, 1] spawnedSimple = Some 2"
    using C4_projectile_expiry [where dts = "[2, 2, 1]" and targets = "[]" and p = spawnedSimple
        and k = 2] nc rhs by blast
  have nc': "\<forall>k<length [4, 4, 1::real].
      \<not> checkProjectileCollisions [] (flown (take (Suc k) [4, 4, 1]) spawnedMain)"
    by (simp add: All_less_Suc spawnedMain_eq checkProjectileCollisions_def
        moveProjectile_def vscale_def vadd_def vx_def vy_def vz_def Let_def)
  have rhs': "2 < length [4, 4, 1::real] \<and>
      lifetime (flown (take (Suc 2) [4, 4, 1]) spawnedMain) > maxLifetime spawnedMain \<and>
      (\<forall>j<2. lifetime (flown (take (Suc j) [4, 4, 1]) spawnedMain) \<le> maxLifetime spawnedMain)"
    by (simp add: moveProjectile_lifetime All_less_Suc numeral_2_eq_2 spawnedMain_eq)
  have main: "removedAt [] [4, 4, 1] spawnedMain = Some 2"
    using C4_projectile_expiry [where dts = "[4, 4, 1]" and targets = "[]" and p = spawnedMain
        and k = 2] nc' rhs' by blast
  show ?thesis
    using nc nc' simple main
    by (simp add: All_less_Suc moveProjectile_lifetime spawnedSimple_eq spawnedMain_eq)
qed

section \<open>Movement\<close>

lemma horizontalSpeed_x: "horizontalSpeed (a, b, 0) = \<bar>a\<bar>"
  by (simp add: horizontalSpeed_def vx_def vz_def)

lemma horizontalSpeed_z: "horizontalSpeed (0, b, c) = \<bar>c\<bar>"
  by (simp add: horizontalSpeed_def vx_def vz_def)

text \<open>
  In the class with configured thresholds \<open>update\<close> never resolves a state: its first
  call, to the missing method \<open>applyGravity\<close>, throws.
\<close>

lemma PlayerMovement_update_throws:
  "PlayerMovement_update deltaTime pm = Inl TypeError"
  by (simp add: PlayerMovement_update_def PlayerMovement_applyGravity_def callMethod_def)

text \<open>The state that \<open>updateState\<close> resolves, without the notification.\<close>

lemma updateState_currentState:
  "PlayerMovement2.currentState (updateState inputState pm) =
     (if \<not> PlayerMovement2.isGrounded pm then
        (if vy (linearVelocity (PlayerMovement2.body pm)) > 0.5 then JUMPING else FALLING)
      else if horizontalSpeed (linearVelocity (PlayerMovement2.body pm)) > 0.5 then
        (if sprint inputState \<and>
            horizontalSpeed (linearVelocity (PlayerMovement2.body pm)) >
              MovementConfig2.walkSpeed (PlayerMovement2.config pm) * 0.8
         then RUNNING else WALKING)
      else IDLE)"
  unfolding updateState_def Let_def by simp

text \<open>
  Claim C5, as stated, on \<open>updateState\<close>, whose run threshold is \<open>0.8 * walkSpeed\<close>
  and whose walk threshold is 0.5: with \<open>walkSpeed = 0.5\<close>, on the ground at a
  horizontal speed of 0.46875, above the run threshold 0.4, and with sprint held, the
  state is Idle, because the walk threshold is tested first; the order of the claim
  gives Running.
\<close>

theorem C5_counterexample:
  "PlayerMovement2.currentState (updateState sprintHeld crawler) = IDLE \<and>
   PlayerMovement2.isGrounded crawler \<and> sprint sprintHeld \<and>
   horizontalSpeed (linearVelocity (PlayerMovement2.body crawler)) = 0.46875 \<and>
   MovementConfig2.walkSpeed (PlayerMovement2.config crawler) * 0.8 = 0.4 \<and>
   specResolution 0.5 0.4 0.5 True 0 0.46875 True = RUNNING"
  by (simp add: updateState_currentState crawler_def sprintHeld_def defaultMovementConfig2_def
      horizontalSpeed_x specResolution_def)

text \<open>
  Claim C5, amended. In \<open>updateState\<close> the state is resolved in the order of the claim,
  with jump threshold 0.5, walk threshold 0.5 and run threshold \<open>0.8 * walkSpeed\<close>,
  provided the run threshold is not below the walk threshold. Exactly one state
  results.
\<close>

theorem C5_state_resolution:
  "0.5 \<le> MovementConfig2.walkSpeed (PlayerMovement2.config pm2) * 0.8 \<longrightarrow>
    PlayerMovement2.currentState (updateState inputState pm2) =
     specResolution 0.5 (MovementConfig2.walkSpeed (PlayerMovement2.config pm2) * 0.8) 0.5
       (PlayerMovement2.isGrounded pm2) (vy (linearVelocity (PlayerMovement2.body pm2)))
       (horizontalSpeed (linearVelocity (PlayerMovement2.body pm2))) (sprint inputState)"
proof
  assume w: "0.5 \<le> MovementConfig2.walkSpeed (PlayerMovement2.config pm2) * 0.8"
  show "PlayerMovement2.currentState (updateState inputState pm2) =
     specResolution 0.5 (MovementConfig2.walkSpeed (PlayerMovement2.config pm2) * 0.8) 0.5
       (PlayerMovement2.isGrounded pm2) (vy (linearVelocity (PlayerMovement2.body pm2)))
       (horizontalSpeed (linearVelocity (PlayerMovement2.body pm2))) (sprint inputState)"
    unfolding updateState_currentState specResolution_def using w by auto
qed

text \<open>On the ground at speed 4 (run threshold 3.2): Running with sprint held, Walking without.\<close>

theorem C5_state_resolution_witness:
  "(0.5::real) \<le> MovementConfig2.walkSpeed (PlayerMovement2.config sprinter) * 0.8 \<and>
   PlayerMovement2.currentState (updateState sprintHeld sprinter) = RUNNING \<and>
   PlayerMovement2.currentState (updateState (sprintHeld\<lparr>sprint := False\<rparr>) sprinter) = WALKING"
  using C5_state_resolution [where ?pm2.0 = sprinter and inputState = sprintHeld]
    C5_state_resolution [where ?pm2.0 = sprinter and inputState = "sprintHeld\<lparr>sprint := False\<rparr>"]
  by (simp add: sprinter_def sprintHeld_def defaultMovementConfig2_def specResolution_def
      horizontalSpeed_z vy_def)

text \<open>
  Claim C8. In both classes \<open>jump\<close> off the ground returns the movement as it is: no
  impulse, the same velocity, the same state, and nothing kept for later. On the
  ground it hands the engine one impulse \<open>(0, jumpForce, 0)\<close>.
\<close>

theorem C8_jump_only_when_grounded:
  "(\<not> PlayerMovement.isGrounded pm \<longrightarrow> PlayerMovement_jump pm = pm) \<and>
   (PlayerMovement.isGrounded pm \<longrightarrow>
      impulses (PlayerMovement.body (PlayerMovement_jump pm)) =
        impulses (PlayerMovement.body pm) @
          [((0, MovementConfig.jumpForce (PlayerMovement.config pm), 0),
            PlayerMovement.absolutePosition pm)] \<and>
      PlayerMovement.currentState (PlayerMovement_jump pm) = PlayerMovement.currentState pm) \<and>
   (\<not> PlayerMovement2.isGrounded pm2 \<longrightarrow> PlayerMovement2_jump pm2 = pm2) \<and>
   (PlayerMovement2.isGrounded pm2 \<longrightarrow>
      impulses (PlayerMovement2.body (PlayerMovement2_jump pm2)) =
        impulses (PlayerMovement2.body pm2) @
          [((0, MovementConfig2.jumpForce (PlayerMovement2.config pm2), 0),
            PlayerMovement2.absolutePosition pm2)] \<and>
      PlayerMovement2.currentState (PlayerMovement2_jump pm2) = PlayerMovement2.currentState pm2)"
  by (simp add: PlayerMovement_jump_def PlayerMovement2_jump_def applyImpulse_def Let_def)

text \<open>A falling player and a standing one, with the default \<open>jumpForce\<close> 8.\<close>

theorem C8_jump_only_when_grounded_witness:
  "\<not> PlayerMovement.isGrounded airbornePlayer \<and>
   PlayerMovement_jump airbornePlayer = airbornePlayer \<and>
   PlayerMovement.isGrounded standingPlayer \<and>
   impulses (PlayerMovement.body (PlayerMovement_jump standingPlayer)) = [((0, 8, 0), (0, 1, 0))]"
  using C8_jump_only_when_grounded [where pm = airbornePlayer]
    C8_jump_only_when_grounded [where pm = standingPlayer]
  by (simp add: airbornePlayer_def standingPlayer_def defaultMovementConfig_def)

section \<open>Input\<close>

text \<open>The sixteen combinations of the four keys.\<close>

lemma diagonal_length:
  "1 - 1 / 2 ^ 53 < sqrt (diagonalComponent * diagonalComponent +
     diagonalComponent * diagonalComponent)"
  "sqrt (diagonalComponent * diagonalComponent + diagonalComponent * diagonalComponent) < 1"
  by (rule real_less_rsqrt, simp add: power2_eq_square diagonalComponent_def)
     (rule real_less_lsqrt, simp_all add: power2_eq_square diagonalComponent_def)

lemma getMovementVector_cases:
  "getMovementVector i =
     (if left i = right i then
        (if forward i = backward i then (0, 0)
         else (0, if forward i then 1 else - 1))
      else
        (if forward i = backward i then (if right i then 1 else - 1, 0)
         else (if right i then diagonalComponent else - diagonalComponent,
               if forward i then diagonalComponent else - diagonalComponent)))"
  by (cases "left i"; cases "right i"; cases "forward i"; cases "backward i")
     (simp_all add: getMovementVector_def Let_def double_ops_small Math_sqrt_0_1
        ddiv_by_sqrt2 Math_sqrt_2_pos)

text \<open>
  Claim C9, as stated: forward with right gives 0.7071067811865475 twice, a vector
  whose length is below 1.
\<close>

theorem C9_counterexample:
  "getMovementVector diagonalInput = (diagonalComponent, diagonalComponent) \<and>
   sqrt (fst (getMovementVector diagonalInput) * fst (getMovementVector diagonalInput) +
         snd (getMovementVector diagonalInput) * snd (getMovementVector diagonalInput)) < 1"
  using diagonal_length(2) by (simp add: getMovementVector_cases diagonalInput_def)

text \<open>
  Claim C9, amended. \<open>getMovementVector\<close> is the zero vector when the keys held
  cancel (or none is held), a unit vector along an axis when one direction is left,
  and for a diagonal the vector with both components 0.7071067811865475 in absolute
  value. Its length is 0 or lies above \<open>1 - 2^-53\<close> and is at most 1: the diagonal is
  normalised up to rounding and is never longer than an axis vector.
\<close>

theorem C9_movement_vector_length:
  "(left i = right i \<and> forward i = backward i \<longrightarrow> getMovementVector i = (0, 0)) \<and>
   (left i \<noteq> right i \<and> forward i = backward i \<longrightarrow>
      getMovementVector i = (if right i then 1 else - 1, 0)) \<and>
   (left i = right i \<and> forward i \<noteq> backward i \<longrightarrow>
      getMovementVector i = (0, if forward i then 1 else - 1)) \<and>
   (left i \<noteq> right i \<and> forward i \<noteq> backward i \<longrightarrow>
      getMovementVector i =
        (if right i then diagonalComponent else - diagonalComponent,
         if forward i then diagonalComponent else - diagonalComponent)) \<and>
   (getMovementVector i = (0, 0) \<or>
    (1 - 1 / 2 ^ 53 <
       sqrt (fst (getMovementVector i) * fst (getMovementVector i) +
             snd (getMovementVector i) * snd (getMovementVector i)) \<and>
     sqrt (fst (getMovementVector i) * fst (getMovementVector i) +
           snd (getMovementVector i) * snd (getMovementVector i)) \<le> 1))"
proof -
  have shape: "(left i = right i \<and> forward i = backward i \<longrightarrow> getMovementVector i = (0, 0)) \<and>
   (left i \<noteq> right i \<and> forward i = backward i \<longrightarrow>
      getMovementVector i = (if right i then 1 else - 1, 0)) \<and>
   (left i = right i \<and> forward i \<noteq> backward i \<longrightarrow>
      getMovementVector i = (0, if forward i then 1 else - 1)) \<and>
   (left i \<noteq> right i \<and> forward i \<noteq> backward i \<longrightarrow>
      getMovementVector i =
        (if right i then diagonalComponent else - diagonalComponent,
         if forward i then diagonalComponent else - diagonalComponent))"
    by (simp add: getMovementVector_cases)
  have len: "getMovementVector i = (0, 0) \<or>
    (1 - 1 / 2 ^ 53 <
       sqrt (fst (getMovementVector i) * fst (getMovementVector i) +
             snd (getMovementVector i) * snd (getMovementVector i)) \<and>
     sqrt (fst (getMovementVector i) * fst (getMovementVector i) +
           snd (getMovementVector i) * snd (getMovementVector i)) \<le> 1)"
    using diagonal_length
    by (cases "left i"; cases "right i"; cases "forward i"; cases "backward i")
       (simp_all add: getMovementVector_cases)
  show ?thesis using shape len by blast
qed

text \<open>Forward with right, forward alone, and all four keys together.\<close>

theorem C9_movement_vector_length_witness:
  "getMovementVector diagonalInput = (diagonalComponent, diagonalComponent) \<and>
   getMovementVector (diagonalInput\<lparr>right := False\<rparr>) = (0, 1) \<and>
   getMovementVector (diagonalInput\<lparr>left := True, backward := True\<rparr>) = (0, 0) \<and>
   1 - 1 / 2 ^ 53 <
     sqrt (fst (getMovementVector diagonalInput) * fst (getMovementVector diagonalInput) +
           snd (getMovementVector diagonalInput) * snd (getMovementVector diagonalInput))"
proof -
  note diagonal = C9_movement_vector_length [of diagonalInput]
  note axis = C9_movement_vector_length [of "diagonalInput\<lparr>right := False\<rparr>"]
  note cancel = C9_movement_vector_length [of "diagonalInput\<lparr>left := True, backward := True\<rparr>"]
  have a: "getMovementVector diagonalInput = (diagonalComponent, diagonalComponent)"
    using diagonal by (simp add: diagonalInput_def)
  have b: "getMovementVector (diagonalInput\<lparr>right := False\<rparr>) = (0, 1)"
    using axis by (simp add: diagonalInput_def)
  have c: "getMovementVector (diagonalInput\<lparr>left := True, backward := True\<rparr>) = (0, 0)"
    using cancel by (simp add: diagonalInput_def)
  have nz: "getMovementVector diagonalInput \<noteq> (0, 0)"
    using a by (simp add: diagonalComponent_def)
  have d: "1 - 1 / 2 ^ 53 <
     sqrt (fst (getMovementVector diagonalInput) * fst (getMovementVector diagonalInput) +
           snd (getMovementVector diagonalInput) * snd (getMovementVector diagonalInput))"
    using diagonal nz by blast
  show ?thesis using a b c d by blast
qed

section \<open>Camera zoom\<close>

text \<open>
  Claim C10, as stated: \<open>updateConfig\<close> with a minimum distance of 20 on the default
  camera (maximum 15) sets the target distance to 20, above the configured maximum.
\<close>

theorem C10_counterexample:
  "targetCameraDistance (updateConfig raiseMinimum (newThirdPersonCamera None)) = 20 \<and>
   maxDistance (cameraConfig (updateConfig raiseMinimum (newThirdPersonCamera None))) = 15 \<and>
   \<not> targetInBounds (updateConfig raiseMinimum (newThirdPersonCamera None))"
  by (simp add: updateConfig_def newThirdPersonCamera_def raiseMinimum_def mergeConfig_def
      orElse_def defaultCameraConfig_def targetInBounds_def Let_def)

text \<open>Each of the three operations clamps the target distance.\<close>

lemma zoomOp_clamps:
  "limitsConsistent (zoomOp op cam) \<Longrightarrow> targetInBounds (zoomOp op cam)"
  by (cases op)
     (auto simp add: limitsConsistent_def targetInBounds_def onScrollChange_def setZoom_def
        updateConfig_def Let_def)

text \<open>
  Claim C10, amended. Whenever the limits are consistent (minimum at most maximum)
  after a scroll, a \<open>setZoom\<close> or an \<open>updateConfig\<close>, the target distance lies within
  them; so a run of these operations that keeps the limits consistent, started within
  the limits, ends within the limits.
\<close>

theorem C10_zoom_stays_in_bounds:
  "(limitsConsistent (zoomOp op cam) \<longrightarrow> targetInBounds (zoomOp op cam)) \<and>
   (targetInBounds cam \<and> limitsStayConsistent ops cam \<longrightarrow> targetInBounds (zoomOps ops cam))"
proof
  show "limitsConsistent (zoomOp op cam) \<longrightarrow> targetInBounds (zoomOp op cam)"
    by (simp add: zoomOp_clamps)
  show "targetInBounds cam \<and> limitsStayConsistent ops cam \<longrightarrow> targetInBounds (zoomOps ops cam)"
  proof (induction ops arbitrary: cam)
    case Nil
    show ?case by simp
  next
    case (Cons op ops)
    show ?case
    proof (intro impI)
      assume a: "targetInBounds cam \<and> limitsStayConsistent (op # ops) cam"
      then have "targetInBounds (zoomOp op cam)" by (simp add: zoomOp_clamps)
      with a Cons.IH [of "zoomOp op cam"] show "targetInBounds (zoomOps (op # ops) cam)"
        by simp
    qed
  qed
qed

text \<open>
  From the default camera: scroll out (10), \<open>setZoom 100\<close> (15), limits narrowed to
  5 and 9 (9), scroll in (7).
\<close>

theorem C10_zoom_stays_in_bounds_witness:
  "targetInBounds (newThirdPersonCamera None) \<and>
   limitsStayConsistent [Scroll 120, SetZoom 100, UpdateConfig narrowLimits, Scroll (- 120)]
     (newThirdPersonCamera None) \<and>
   targetInBounds (zoomOps [Scroll 120, SetZoom 100, UpdateConfig narrowLimits, Scroll (- 120)]
     (newThirdPersonCamera None)) \<and>
   targetCameraDistance (zoomOps [Scroll 120, SetZoom 100, UpdateConfig narrowLimits, Scroll (- 120)]
     (newThirdPersonCamera None)) = 7"
  using C10_zoom_stays_in_bounds [where cam = "newThirdPersonCamera None"
      and ops = "[Scroll 120, SetZoom 100, UpdateConfig narrowLimits, Scroll (- 120)]"
      and op = "Scroll 120"]
  by (simp add: newThirdPersonCamera_def defaultCameraConfig_def limitsConsistent_def
      targetInBounds_def onScrollChange_def setZoom_def updateConfig_def narrowLimits_def
      mergeConfig_def orElse_def Let_def)

end
